theory Spec2Isabelle
  imports Complex_Main "HOL-Library.Sublist" "HOL-Library.Log_Nat"
begin

section \<open>Python strings\<close>

text \<open>
  Text is modelled as Isabelle strings, that is, as lists of code points below 256.
  \<open>lower_char\<close> is \<open>str.lower()\<close> on that range: the ASCII capitals and the Latin-1
  capitals (192 to 222 without the multiplication sign 215) move up by 32, every other code
  point stays.
\<close>

definition lower_char :: "char \<Rightarrow> char" where
  "lower_char c =
     (let n = (of_char c :: nat) in
      if (65 \<le> n \<and> n \<le> 90) \<or> (192 \<le> n \<and> n \<le> 222 \<and> n \<noteq> 215)
      then char_of (n + 32) else c)"

definition lower :: "string \<Rightarrow> string" where
  "lower s = map lower_char s"

definition upper_char :: "char \<Rightarrow> char" where
  "upper_char c =
     (let n = (of_char c :: nat) in
      if (97 \<le> n \<and> n \<le> 122) \<or> (224 \<le> n \<and> n \<le> 254 \<and> n \<noteq> 247)
      then char_of (n - 32) else c)"

text \<open>
  \<open>s.capitalize()\<close>: the first character in upper case, the rest in lower case. The
  collectors capitalize the names of their fixed product lists and strings that start with
  an at sign only, so \<open>upper_char\<close> meets no code point whose capital lies beyond 255.
\<close>

definition capitalize :: "string \<Rightarrow> string" where
  "capitalize s = (case s of [] \<Rightarrow> [] | c # cs \<Rightarrow> upper_char c # lower cs)"

text \<open>\<open>py_in kw text\<close> is the substring test \<open>kw in text\<close>.\<close>

fun py_in :: "string \<Rightarrow> string \<Rightarrow> bool" where
  "py_in kw [] = (kw = [])"
| "py_in kw (c # cs) = (prefix kw (c # cs) \<or> py_in kw cs)"

text \<open>\<open>any_kw kws text\<close> is \<open>any(kw in text for kw in kws)\<close>.\<close>

definition any_kw :: "string list \<Rightarrow> string \<Rightarrow> bool" where
  "any_kw kws text = list_ex (\<lambda>kw. py_in kw text) kws"

text \<open>\<open>fmt2 a b\<close> is the f-string \<open>f"{a} {b}"\<close>.\<close>

definition fmt2 :: "string \<Rightarrow> string \<Rightarrow> string" where
  "fmt2 a b = a @ '' '' @ b"

text \<open>
  \<open>list(set(xs))\<close> keeps one copy of every element. Python leaves the order of the result
  open; the model fixes one order, and no statement below depends on it.
\<close>

definition py_list_set :: "string list \<Rightarrow> string list" where
  "py_list_set xs = remdups xs"

text \<open>Truthiness of an optional string: \<open>None\<close> and the empty string are false.\<close>

definition truthy :: "string option \<Rightarrow> bool" where
  "truthy s = (case s of None \<Rightarrow> False | Some v \<Rightarrow> v \<noteq> [])"

section \<open>Python numbers\<close>

text \<open>
  A finite float is modelled by the rational it denotes. \<open>py_int\<close> is \<open>int(x)\<close> on a
  float: truncation towards zero.
\<close>

definition py_int :: "rat \<Rightarrow> int" where
  "py_int x = (if 0 \<le> x then \<lfloor>x\<rfloor> else \<lceil>x\<rceil>)"

text \<open>\<open>py_round\<close> is \<open>round(x)\<close>: to the nearest integer, a tie to the even one.\<close>

definition py_round :: "rat \<Rightarrow> int" where
  "py_round x =
     (let f = \<lfloor>x\<rfloor>; d = x - of_int f in
      if d < 1 / 2 then f
      else if 1 / 2 < d then f + 1
      else if even f then f else f + 1)"

text \<open>
  Python's floats are IEEE 754 doubles. \<open>to_double x\<close> is the double nearest to \<open>x\<close>,
  a tie going to the even mantissa: the result of reading a decimal number, of converting
  an integer, and of every float operation whose exact result is \<open>x\<close>. With
  \<open>lg = floor(log2 |x|)\<close> the mantissa \<open>m\<close> is \<open>|x| / 2^e\<close> rounded to an integer, where
  \<open>e = lg - 52\<close>, and \<open>e = -1074\<close> in the subnormal range. The value is \<open>None\<close> when
  the double is infinite, that is when \<open>m * 2^e\<close> reaches \<open>2^1024\<close>; as \<open>m\<close> is at most
  \<open>2^53\<close> this needs \<open>e \<ge> 971\<close>.
\<close>

definition pow2 :: "int \<Rightarrow> rat" where
  "pow2 k = (if 0 \<le> k then 2 ^ nat k else 1 / 2 ^ nat (- k))"

definition to_double :: "rat \<Rightarrow> rat option" where
  "to_double x =
     (if x = 0 then Some 0
      else
        let a = \<bar>x\<bar>;
            k = bitlen (fst (quotient_of a)) - bitlen (snd (quotient_of a));
            lg = (if pow2 k \<le> a then k else k - 1);
            e = max (lg - 52) (- 1074);
            m = py_round (a / pow2 e);
            y = of_int m * pow2 e
        in if 971 \<le> e \<and> 2 ^ nat (1024 - e) \<le> m then None else Some (sgn x * y))"

text \<open>
  The float \<open>ratio * score\<close> for a float \<open>ratio\<close> (read from the number the platform
  sends) and an integer \<open>score\<close>: the integer is converted to a float, then the product
  is rounded. \<open>None\<close> stands for an infinite or undefined value and for the
  \<open>OverflowError\<close> of converting too large an integer.
\<close>

definition float_product :: "rat \<Rightarrow> int \<Rightarrow> rat option" where
  "float_product ratio score =
     (case to_double ratio of
        None \<Rightarrow> None
      | Some r \<Rightarrow>
          (case to_double (of_int score) of
             None \<Rightarrow> None
           | Some sc \<Rightarrow> to_double (r * sc)))"

section \<open>Python objects\<close>

text \<open>
  The exceptions of a run: \<open>TypeError\<close> for a call with a keyword argument the callee
  does not have (it carries the keyword), \<open>AttributeError\<close> for reading an attribute an
  object does not have (it carries the attribute), and the database layer's
  \<open>MultipleResultsFound\<close>.
\<close>

datatype py_exception = TypeError string | AttributeError string | MultipleResultsFound

text \<open>
  A dictionary is a list of keys with their values. \<open>dict_getattr d name\<close> is the
  attribute read \<open>d.name\<close> for a data attribute: a dictionary has its keys as items, not
  as attributes, so the read raises.
\<close>

definition dict_getattr :: "(string \<times> 'v) list \<Rightarrow> string \<Rightarrow> py_exception + 'v" where
  "dict_getattr d name = Inl (AttributeError name)"

section \<open>The normalized record\<close>

text \<open>
  The dictionary every collector builds for one item, and the row that the coordinator
  stores from it. A key that a platform's dictionary does not have is \<open>None\<close>.
  Timestamps are seconds since the epoch.
\<close>

record demand =
  content :: string
  title :: "string option"
  platform :: string
  source_url :: string
  author :: "string option"
  author_url :: "string option"
  timestamp :: int
  upvotes :: int
  comments :: int
  shares :: int
  interaction_score :: int
  sentiment :: string
  sentiment_score :: rat
  tags :: "string list"
  product_mentioned :: "string list"
  category :: string
  subreddit :: "string option"
  repository :: "string option"
  issue_number :: "int option"
  language :: string

text \<open>
  The sentiment analyzer is a third-party library: \<open>polarity\<close> stands for the compound
  score it gives a text. \<open>analyze_sentiment\<close> is the method \<open>_analyze_sentiment\<close>, the same
  in the three collectors.
\<close>

definition analyze_sentiment :: "(string \<Rightarrow> rat) \<Rightarrow> string \<Rightarrow> string \<times> rat" where
  "analyze_sentiment polarity text =
     (let compound = polarity text in
      if 5 / 100 \<le> compound then (''positive'', compound)
      else if compound \<le> - (5 / 100) then (''negative'', \<bar>compound\<bar>)
      else (''neutral'', 1 / 2))"

section \<open>The Reddit collector\<close>

definition reddit_subreddits :: "string list" where
  "reddit_subreddits =
     [''webdev'', ''webdevtools'', ''SaaS'',
      ''UIUC'', ''technology'', ''Productivity'',
      ''selfhosted'', ''sysadmin'', ''Programming'',
      ''devops'', ''learnprogramming'', ''coding'',
      ''software'', ''softwaredevelopment'', ''startups'',
      ''entrepreneur'', ''entrepreneurship'',
      ''ProductHunt'', ''SideProject'', ''IndieHackers'',
      ''apps'', ''ios'', ''android'', ''webapp'',
      ''webdesign'', ''design'', ''UXDesign'',
      ''privacy'', ''security'', ''privacytools'']"

definition reddit_request_keywords :: "string list" where
  "reddit_request_keywords =
     [''feature request'', ''missing'', ''need'', ''should have'', ''wish'',
      ''want'', ''why no'', ''does anyone have'', ''looking for'', ''suggestion'',
      ''implement'', ''add feature'', ''support'', ''integrate'']"

definition reddit_complaint_keywords :: "string list" where
  "reddit_complaint_keywords =
     [''hate'', ''frustrating'', ''annoying'', ''useless'', ''broken'',
      ''sucks'', ''terrible'', ''worst'', ''slow'', ''lag'',
      ''bug'', ''crash'', ''error'', ''fail'', ''problem'']"

definition reddit_bug_keywords :: "string list" where
  "reddit_bug_keywords =
     [''bug'', ''crash'', ''error'', ''doesn't work'', ''not working'', ''glitch'']"

definition reddit_praise_keywords :: "string list" where
  "reddit_praise_keywords =
     [''love'', ''great'', ''amazing'', ''awesome'', ''perfect'', ''best'', ''thanks'']"

definition reddit_discussion_keywords :: "string list" where
  "reddit_discussion_keywords =
     [''how'', ''what'', ''why'', ''anyone'', ''experience'', ''opinion'']"

text \<open>\<open>RedditCollector._categorize_post\<close>.\<close>

definition categorize_post :: "string \<Rightarrow> string \<Rightarrow> string option" where
  "categorize_post cont ttl =
     (let full_text = lower (fmt2 ttl cont) in
      if any_kw reddit_request_keywords full_text then Some ''feature-request''
      else if any_kw reddit_complaint_keywords full_text then Some ''complaint''
      else if any_kw reddit_bug_keywords full_text then Some ''bug-report''
      else if any_kw reddit_praise_keywords full_text then Some ''praise''
      else if any_kw reddit_discussion_keywords full_text then Some ''discussion''
      else None)"

text \<open>
  The tag loop shared by the three \<open>_extract_tags\<close> methods: for every entry of the
  \<open>feature_tags\<close> dictionary, in its order, the tag is appended when one of its keywords
  occurs in the text.
\<close>

fun tag_loop :: "(string \<times> string list) list \<Rightarrow> string \<Rightarrow> string list \<Rightarrow> string list" where
  "tag_loop [] full_text tgs = tgs"
| "tag_loop ((tag, keywords) # rest) full_text tgs =
     tag_loop rest full_text (if any_kw keywords full_text then tgs @ [tag] else tgs)"

definition reddit_feature_tags :: "(string \<times> string list) list" where
  "reddit_feature_tags =
     [(''offline'', [''offline'', ''offline mode'', ''no internet'', ''without connection'']),
      (''sync'', [''sync'', ''synchronize'', ''syncing'']),
      (''export'', [''export'', ''download'', ''backup'']),
      (''import'', [''import'', ''migrate'', ''transfer'']),
      (''api'', [''api'', ''webhook'', ''integration'']),
      (''mobile'', [''mobile'', ''ios'', ''android'', ''app'']),
      (''collaboration'', [''collaborate'', ''team'', ''share'', ''real-time'']),
      (''pricing'', [''pricing'', ''cost'', ''expensive'', ''cheap'', ''free'']),
      (''performance'', [''slow'', ''lag'', ''performance'', ''speed'']),
      (''ui'', [''ui'', ''design'', ''interface'', ''dark mode'', ''theme'']),
      (''security'', [''security'', ''privacy'', ''encryption'', ''2fa''])]"

text \<open>\<open>RedditCollector._extract_tags\<close>.\<close>

definition reddit_extract_tags :: "string \<Rightarrow> string \<Rightarrow> string \<Rightarrow> string list" where
  "reddit_extract_tags cont ttl cat =
     py_list_set (tag_loop reddit_feature_tags (lower (fmt2 ttl cont)) [cat])"

definition reddit_products :: "string list" where
  "reddit_products =
     [''notion'', ''figma'', ''github'', ''gitlab'', ''linear'', ''jira'', ''trello'',
      ''slack'', ''discord'', ''zoom'', ''teams'', ''gmail'', ''outlook'',
      ''vscode'', ''intellij'', ''vim'', ''emacs'', ''xcode'',
      ''chrome'', ''firefox'', ''safari'', ''edge'',
      ''aws'', ''azure'', ''gcp'', ''heroku'', ''vercel'', ''netlify'',
      ''docker'', ''kubernetes'', ''terraform'', ''ansible'',
      ''react'', ''vue'', ''angular'', ''svelte'', ''nextjs'', ''nuxt'',
      ''python'', ''javascript'', ''typescript'', ''java'', ''go'', ''rust'',
      ''mongodb'', ''postgresql'', ''mysql'', ''redis'', ''elasticsearch'']"

text \<open>\<open>RedditCollector._extract_product_mentions\<close>.\<close>

definition reddit_extract_product_mentions :: "string \<Rightarrow> string list" where
  "reddit_extract_product_mentions text =
     py_list_set (map capitalize (filter (\<lambda>product. py_in product (lower text)) reddit_products))"

text \<open>
  A submission as the Reddit client hands it over. Every attribute the parser reads is
  present; \<open>s_author\<close> is \<open>None\<close> for a deleted account, and \<open>s_upvote_ratio\<close> is the
  number Reddit sends, which the client reads as a float.
\<close>

record submission =
  s_selftext :: string
  s_title :: string
  s_permalink :: string
  s_author :: "string option"
  s_created_utc :: int
  s_score :: int
  s_upvote_ratio :: rat
  s_num_comments :: int
  s_subreddit :: string

text \<open>
  The float \<open>upvote_ratio * score + num_comments * 2\<close> of \<open>_parse_submission\<close>: the
  product is a float, the integer \<open>num_comments * 2\<close> is converted, and the sum is rounded.
\<close>

definition float_interaction_score :: "rat \<Rightarrow> int \<Rightarrow> int \<Rightarrow> rat option" where
  "float_interaction_score ratio score num =
     (case float_product ratio score of
        None \<Rightarrow> None
      | Some p \<Rightarrow>
          (case to_double (of_int (num * 2)) of
             None \<Rightarrow> None
           | Some c \<Rightarrow> to_double (p + c)))"

text \<open>
  \<open>RedditCollector._parse_submission\<close>. When the float sum is not finite, or an integer
  is too large for a float, the parser raises inside its \<open>try\<close> (at the latest in
  \<open>int(...)\<close>), and the \<open>except\<close> branch returns \<open>None\<close>.
\<close>

definition parse_submission :: "(string \<Rightarrow> rat) \<Rightarrow> submission \<Rightarrow> string option \<Rightarrow> demand option" where
  "parse_submission polarity s sub =
     (let cont = (if s_selftext s \<noteq> [] then s_selftext s else s_title s) in
      case categorize_post cont (s_title s) of
        None \<Rightarrow> None
      | Some cat \<Rightarrow>
          let full_text = fmt2 (s_title s) cont;
              sent = analyze_sentiment polarity full_text;
              products = reddit_extract_product_mentions full_text;
              tgs = reddit_extract_tags cont (s_title s) cat
          in case float_interaction_score (s_upvote_ratio s) (s_score s) (s_num_comments s) of
               None \<Rightarrow> None
             | Some score \<Rightarrow>
               Some \<lparr>content = cont,
                   title = Some (s_title s),
                   platform = ''reddit'',
                   source_url = ''https://reddit.com'' @ s_permalink s,
                   author = (case s_author s of Some a \<Rightarrow> Some a | None \<Rightarrow> Some ''[deleted]''),
                   author_url =
                     (case s_author s of Some a \<Rightarrow> Some (''https://reddit.com/user/'' @ a)
                      | None \<Rightarrow> None),
                   timestamp = s_created_utc s,
                   upvotes = s_score s,
                   comments = s_num_comments s,
                   shares = 0,
                   interaction_score = py_int score,
                   sentiment = fst sent,
                   sentiment_score = snd sent,
                   tags = tgs,
                   product_mentioned = products,
                   category = cat,
                   subreddit = Some (if truthy sub then the sub else s_subreddit s),
                   repository = None,
                   issue_number = None,
                   language = ''en''\<rparr>)"

text \<open>
  The interaction score as the specification words it,
  \<open>round(upvote_ratio * score) + num_comments * 2\<close>, for comparison with the parser's: the
  float product rounded to the nearest integer, plus the integer.
\<close>

definition spec_reddit_interaction_score :: "rat \<Rightarrow> int \<Rightarrow> int \<Rightarrow> int option" where
  "spec_reddit_interaction_score ratio score num =
     (case float_product ratio score of
        None \<Rightarrow> None
      | Some p \<Rightarrow> Some (py_round p + num * 2))"

text \<open>
  The requests the collector sends to Reddit: a search inside a subreddit (subreddit, query,
  time filter, limit), the new posts of a subreddit (subreddit, limit), and a search over
  all of Reddit (query, time filter, limit). The service answers with the submissions the
  listing yields; when the listing raises part-way, the methods keep the records built so
  far, so the answer is the submissions yielded up to that point.
\<close>

datatype reddit_call =
  Subreddit_search string string string int
  | Subreddit_new string int
  | All_search string string int

type_synonym reddit_api = "reddit_call \<Rightarrow> submission list"

text \<open>
  \<open>RedditCollector._collect_from_subreddit\<close>. Every collecting function returns the requests
  it sent and the records it built.
\<close>

definition collect_from_subreddit ::
  "reddit_api \<Rightarrow> (string \<Rightarrow> rat) \<Rightarrow> string \<Rightarrow> string option \<Rightarrow> string \<Rightarrow> int
     \<Rightarrow> reddit_call list \<times> demand list" where
  "collect_from_subreddit api polarity sr query time_filter limit =
     (let c = (if truthy query then Subreddit_search sr (the query) time_filter limit
               else Subreddit_new sr limit)
      in ([c], List.map_filter (\<lambda>s. parse_submission polarity s (Some sr)) (api c)))"

text \<open>\<open>RedditCollector._search_reddit\<close>.\<close>

definition search_reddit ::
  "reddit_api \<Rightarrow> (string \<Rightarrow> rat) \<Rightarrow> string \<Rightarrow> string \<Rightarrow> int \<Rightarrow> reddit_call list \<times> demand list" where
  "search_reddit api polarity query time_filter limit =
     (let c = All_search query time_filter limit
      in ([c], List.map_filter (\<lambda>s. parse_submission polarity s None) (api c)))"

text \<open>The loop of the default branch of \<open>RedditCollector.collect\<close> over the chosen subreddits.\<close>

fun reddit_sweep ::
  "reddit_api \<Rightarrow> (string \<Rightarrow> rat) \<Rightarrow> string list \<Rightarrow> string option \<Rightarrow> string \<Rightarrow> int
     \<Rightarrow> reddit_call list \<times> demand list" where
  "reddit_sweep api polarity [] query time_filter limit = ([], [])"
| "reddit_sweep api polarity (sub # subs) query time_filter limit =
     (let sub_results = collect_from_subreddit api polarity sub query time_filter limit;
          others = reddit_sweep api polarity subs query time_filter limit
      in (fst sub_results @ fst others, snd sub_results @ snd others))"

text \<open>
  \<open>RedditCollector.collect\<close>; \<open>limit // 5\<close> is floor division. The helper methods
  catch the failures of the service themselves and return what they have built, so the
  handlers of \<open>collect\<close> (which return the empty list) are not entered; the same holds for
  the other two collectors.
\<close>

definition reddit_collect ::
  "reddit_api \<Rightarrow> (string \<Rightarrow> rat) \<Rightarrow> string option \<Rightarrow> string option \<Rightarrow> string \<Rightarrow> int
     \<Rightarrow> reddit_call list \<times> demand list" where
  "reddit_collect api polarity query sr time_filter limit =
     (if truthy sr then collect_from_subreddit api polarity (the sr) query time_filter limit
      else if truthy query then search_reddit api polarity (the query) time_filter limit
      else reddit_sweep api polarity (take 5 reddit_subreddits) query time_filter (limit div 5))"

section \<open>The GitHub collector\<close>

definition github_popular_repos :: "string list" where
  "github_popular_repos =
     [''facebook/react'',
      ''vuejs/core'',
      ''angular/angular'',
      ''microsoft/vscode'',
      ''notionhq/notion-sdk-js'',
      ''vercel/next.js'',
      ''tailwindlabs/tailwindcss'',
      ''prisma/prisma'',
      ''typeorm/typeorm'',
      ''facebook/jest'',
      ''airbnb/javascript'',
      ''github/docs'',
      ''hashicorp/terraform'',
      ''elastic/elasticsearch'']"

text \<open>
  An issue as the GitHub client hands it over: \<open>i_labels\<close> holds the names of its labels in
  the order of the label list, \<open>i_user\<close> the login and the page of its author,
  \<open>i_repository\<close> the owner's login and the name of its repository. \<open>i_reactions\<close> is
  the attribute \<open>reactions\<close>, which the client gives as a dictionary (with the key
  \<open>total_count\<close> among others).
\<close>

record issue =
  i_body :: "string option"
  i_title :: string
  i_labels :: "string list"
  i_html_url :: string
  i_user :: "(string \<times> string) option"
  i_created_at :: int
  i_reactions :: "(string \<times> int) list"
  i_comments :: int
  i_repository :: "(string \<times> string) option"
  i_number :: int

text \<open>The loop over the labels in \<open>GitHubCollector._categorize_issue\<close>.\<close>

fun label_category :: "string list \<Rightarrow> string option" where
  "label_category [] = None"
| "label_category (label # rest) =
     (let label_name = lower label in
      if py_in ''enhancement'' label_name \<or> py_in ''feature'' label_name
         \<or> py_in ''request'' label_name
      then Some ''feature-request''
      else if py_in ''bug'' label_name \<or> py_in ''error'' label_name \<or> py_in ''crash'' label_name
      then Some ''bug-report''
      else label_category rest)"

definition github_feature_keywords :: "string list" where
  "github_feature_keywords =
     [''add feature'', ''feature request'', ''would be nice'', ''support for'', ''implement'']"

definition github_bug_keywords :: "string list" where
  "github_bug_keywords =
     [''bug'', ''issue'', ''problem'', ''doesn't work'', ''not working'', ''broken'']"

text \<open>\<open>GitHubCollector._categorize_issue\<close>.\<close>

definition categorize_issue :: "string \<Rightarrow> string \<Rightarrow> string list \<Rightarrow> string option" where
  "categorize_issue cont ttl labels =
     (let full_text = lower (fmt2 ttl cont) in
      case label_category labels of
        Some cat \<Rightarrow> Some cat
      | None \<Rightarrow>
          if any_kw github_feature_keywords full_text then Some ''feature-request''
          else if any_kw github_bug_keywords full_text then Some ''bug-report''
          else None)"

text \<open>\<open>GitHubCollector._extract_labels\<close>.\<close>

definition extract_labels :: "string list \<Rightarrow> string list" where
  "extract_labels labels = labels"

definition github_feature_tags :: "(string \<times> string list) list" where
  "github_feature_tags =
     [(''documentation'', [''docs'', ''documentation'', ''readme'', ''tutorial'']),
      (''performance'', [''slow'', ''performance'', ''optimize'', ''speed'', ''lag'']),
      (''ui'', [''ui'', ''design'', ''interface'', ''css'', ''style'']),
      (''security'', [''security'', ''vulnerability'', ''cve'', ''exploit'']),
      (''compatibility'', [''compatible'', ''version'', ''browser'', ''platform'']),
      (''testing'', [''test'', ''unit test'', ''integration'', ''e2e''])]"

text \<open>\<open>GitHubCollector._extract_tags\<close>.\<close>

definition github_extract_tags :: "string \<Rightarrow> string \<Rightarrow> string \<Rightarrow> string list" where
  "github_extract_tags cont ttl cat =
     py_list_set (tag_loop github_feature_tags (lower (fmt2 ttl cont)) [cat])"

text \<open>
  \<open>GitHubCollector._parse_issue\<close>. The parser reads \<open>issue.reactions.total_count\<close>, an
  attribute of a dictionary: the read raises inside the \<open>try\<close>, and the \<open>except\<close> branch
  returns \<open>None\<close>.
\<close>

definition parse_issue :: "(string \<Rightarrow> rat) \<Rightarrow> issue \<Rightarrow> string option \<Rightarrow> demand option" where
  "parse_issue polarity i repo_name =
     (let cont = (if truthy (i_body i) then the (i_body i) else []) in
      case categorize_issue cont (i_title i) (i_labels i) of
        None \<Rightarrow> None
      | Some cat \<Rightarrow>
          if cat \<notin> set [''feature-request'', ''bug-report''] then None
          else
            let full_text = fmt2 (i_title i) cont;
                sent = analyze_sentiment polarity full_text;
                tgs = extract_labels (i_labels i) @ github_extract_tags cont (i_title i) cat
            in case dict_getattr (i_reactions i) ''total_count'' of
                 Inl e \<Rightarrow> None
               | Inr total_count \<Rightarrow>
                   let score = total_count + i_comments i * 2;
                       name = (case repo_name of
                                 Some n \<Rightarrow> Some n
                               | None \<Rightarrow>
                                   (case i_repository i of
                                      Some (owner_login, repo) \<Rightarrow>
                                        Some (owner_login @ ''/'' @ repo)
                                    | None \<Rightarrow> None))
                   in Some \<lparr>content = cont,
                            title = Some (i_title i),
                            platform = ''github'',
                            source_url = i_html_url i,
                            author = (case i_user i of Some u \<Rightarrow> Some (fst u) | None \<Rightarrow> None),
                            author_url =
                              (case i_user i of Some u \<Rightarrow> Some (snd u) | None \<Rightarrow> None),
                            timestamp = i_created_at i,
                            upvotes = total_count,
                            comments = i_comments i,
                            shares = 0,
                            interaction_score = score,
                            sentiment = fst sent,
                            sentiment_score = snd sent,
                            tags = tgs,
                            product_mentioned = (if truthy name then [the name] else []),
                            category = cat,
                            subreddit = None,
                            repository = name,
                            issue_number = Some (i_number i),
                            language = ''en''\<rparr>)"

text \<open>
  The requests to GitHub: the issues of a repository in a state, and an issue search. The
  service answers with the issues the paginated list yields (up to a failure, as for
  Reddit); the collector reads the slice \<open>[:limit]\<close> of it.
\<close>

datatype github_call =
  Repo_issues string string
  | Search_issues string

type_synonym github_api = "github_call \<Rightarrow> issue list"

text \<open>\<open>GitHubCollector._collect_from_repo\<close>.\<close>

definition collect_from_repo ::
  "github_api \<Rightarrow> (string \<Rightarrow> rat) \<Rightarrow> string \<Rightarrow> string \<Rightarrow> int \<Rightarrow> github_call list \<times> demand list" where
  "collect_from_repo api polarity repo_name state limit =
     (let c = Repo_issues repo_name state;
          issues = take (nat limit) (api c)
      in ([c], List.map_filter (\<lambda>i. parse_issue polarity i (Some repo_name)) issues))"

text \<open>\<open>GitHubCollector._search_github\<close>.\<close>

definition search_github ::
  "github_api \<Rightarrow> (string \<Rightarrow> rat) \<Rightarrow> string \<Rightarrow> string \<Rightarrow> int \<Rightarrow> github_call list \<times> demand list" where
  "search_github api polarity query state limit =
     (let search_query =
            query @ '' label:\"enhancement\" OR label:\"feature request\" OR label:\"bug\"''
              @ (if state = ''open'' then '' state:open'' else []);
          c = Search_issues search_query;
          issues = take (nat limit) (api c)
      in ([c], List.map_filter (\<lambda>i. parse_issue polarity i None) issues))"

text \<open>The loop of the default branch of \<open>GitHubCollector.collect\<close> over the chosen repositories.\<close>

fun github_sweep ::
  "github_api \<Rightarrow> (string \<Rightarrow> rat) \<Rightarrow> string list \<Rightarrow> string \<Rightarrow> int \<Rightarrow> github_call list \<times> demand list" where
  "github_sweep api polarity [] state limit = ([], [])"
| "github_sweep api polarity (repo # repos) state limit =
     (let repo_results = collect_from_repo api polarity repo state limit;
          others = github_sweep api polarity repos state limit
      in (fst repo_results @ fst others, snd repo_results @ snd others))"

text \<open>\<open>GitHubCollector.collect\<close>.\<close>

definition github_collect ::
  "github_api \<Rightarrow> (string \<Rightarrow> rat) \<Rightarrow> string option \<Rightarrow> string option \<Rightarrow> string \<Rightarrow> int
     \<Rightarrow> github_call list \<times> demand list" where
  "github_collect api polarity query repo state limit =
     (if truthy repo then collect_from_repo api polarity (the repo) state limit
      else if truthy query then search_github api polarity (the query) state limit
      else github_sweep api polarity (take 5 github_popular_repos) state (limit div 5))"

section \<open>The Twitter collector\<close>

text \<open>
  A tweet as the Twitter client hands it over: \<open>t_public_metrics\<close> is the dictionary of its
  counters, \<open>t_entities\<close> the list under the key \<open>mentions\<close> of its entities, each mention
  a dictionary (with the key \<open>username\<close> among others); it is \<open>None\<close> when the tweet
  carries no entities or the entities no mentions.
\<close>

record tweet =
  t_text :: string
  t_id :: string
  t_created_at :: int
  t_public_metrics :: "(string \<times> int) list"
  t_entities :: "(string \<times> string) list list option"

text \<open>\<open>metrics.get(key, 0)\<close>.\<close>

definition metrics_get :: "(string \<times> int) list \<Rightarrow> string \<Rightarrow> int" where
  "metrics_get metrics k = (case map_of metrics k of None \<Rightarrow> 0 | Some v \<Rightarrow> v)"

definition twitter_request_keywords :: "string list" where
  "twitter_request_keywords =
     [''feature request'', ''missing'', ''need'', ''should have'', ''wish'',
      ''want'', ''why no'', ''please add'', ''implement'', ''support'']"

definition twitter_complaint_keywords :: "string list" where
  "twitter_complaint_keywords =
     [''hate'', ''frustrating'', ''annoying'', ''useless'', ''broken'',
      ''sucks'', ''terrible'', ''worst'', ''slow'', ''lag'']"

definition twitter_discussion_keywords :: "string list" where
  "twitter_discussion_keywords =
     [''how'', ''what'', ''why'', ''anyone'', ''experience'', ''opinion'',
      ''thoughts'', ''feedback'', ''ideas'']"

text \<open>\<open>TwitterCollector._categorize_tweet\<close>.\<close>

definition categorize_tweet :: "string \<Rightarrow> string option" where
  "categorize_tweet cont =
     (let content_lower = lower cont in
      if any_kw twitter_request_keywords content_lower then Some ''feature-request''
      else if any_kw twitter_complaint_keywords content_lower then Some ''complaint''
      else if any_kw twitter_discussion_keywords content_lower then Some ''discussion''
      else None)"

definition twitter_product_accounts :: "string list" where
  "twitter_product_accounts =
     [''github'', ''notion'', ''figma'', ''vercel'', ''netlify'', ''slack'',
      ''discord'', ''zoom'', ''awscloud'', ''googlecloud'', ''docker'',
      ''kubernetesio'', ''gitlab'', ''realtwitter'', ''x'']"

definition twitter_product_list :: "string list" where
  "twitter_product_list =
     [''notion'', ''figma'', ''github'', ''gitlab'', ''slack'', ''discord'', ''zoom'',
      ''aws'', ''azure'', ''gcp'', ''heroku'', ''vercel'', ''netlify'',
      ''docker'', ''kubernetes'', ''react'', ''vue'', ''angular'', ''nextjs'']"

text \<open>
  The two loops of \<open>TwitterCollector._extract_product_mentions\<close>. The first reads
  \<open>mention.username\<close>, an attribute of a dictionary, so it raises at the first mention.
\<close>

fun mention_loop ::
  "(string \<times> string) list list \<Rightarrow> string list \<Rightarrow> py_exception + string list" where
  "mention_loop [] products = Inr products"
| "mention_loop (mention # rest) products =
     (case dict_getattr mention ''username'' of
        Inl e \<Rightarrow> Inl e
      | Inr username \<Rightarrow>
          mention_loop rest
            (if lower username \<in> set twitter_product_accounts
             then products @ [capitalize (''@'' @ username)] else products))"

fun product_loop :: "string list \<Rightarrow> string \<Rightarrow> string list \<Rightarrow> string list" where
  "product_loop [] content_lower products = products"
| "product_loop (product # rest) content_lower products =
     product_loop rest content_lower
       (if py_in product content_lower \<and> capitalize product \<notin> set products
        then products @ [capitalize product] else products)"

definition twitter_extract_product_mentions ::
  "(string \<times> string) list list option \<Rightarrow> string \<Rightarrow> py_exception + string list" where
  "twitter_extract_product_mentions entities cont =
     (case (case entities of None \<Rightarrow> Inr [] | Some mentions \<Rightarrow> mention_loop mentions []) of
        Inl e \<Rightarrow> Inl e
      | Inr products \<Rightarrow> Inr (product_loop twitter_product_list (lower cont) products))"

definition twitter_feature_tags :: "(string \<times> string list) list" where
  "twitter_feature_tags =
     [(''mobile'', [''mobile'', ''ios'', ''android'', ''app'']),
      (''api'', [''api'', ''integration'', ''webhook'']),
      (''ui'', [''ui'', ''design'', ''dark mode'', ''theme'']),
      (''pricing'', [''pricing'', ''cost'', ''expensive'', ''price'']),
      (''support'', [''support'', ''help'', ''customer service'']),
      (''privacy'', [''privacy'', ''data'', ''security''])]"

text \<open>\<open>TwitterCollector._extract_tags\<close>.\<close>

definition twitter_extract_tags :: "string \<Rightarrow> string \<Rightarrow> string list" where
  "twitter_extract_tags cont cat =
     py_list_set (tag_loop twitter_feature_tags (lower cont) [cat])"

text \<open>
  \<open>TwitterCollector._parse_tweet\<close>. When the extraction of the products raises, the
  \<open>except\<close> branch returns \<open>None\<close>.
\<close>

definition parse_tweet :: "(string \<Rightarrow> rat) \<Rightarrow> tweet \<Rightarrow> string option \<Rightarrow> demand option" where
  "parse_tweet polarity t username =
     (let cont = t_text t in
      case categorize_tweet cont of
        None \<Rightarrow> None
      | Some cat \<Rightarrow>
          let sent = analyze_sentiment polarity cont;
              tgs = twitter_extract_tags cont cat
          in case twitter_extract_product_mentions (t_entities t) cont of
               Inl e \<Rightarrow> None
             | Inr products \<Rightarrow>
                 let metrics = t_public_metrics t;
                     score = metrics_get metrics ''like_count''
                             + metrics_get metrics ''reply_count'' * 2
                             + metrics_get metrics ''retweet_count'' * 3
                             + metrics_get metrics ''quote_count'' * 2
                 in Some \<lparr>content = cont,
                          title = None,
                          platform = ''twitter'',
                          source_url = ''https://twitter.com/i/web/status/'' @ t_id t,
                          author = username,
                          author_url =
                            (if truthy username
                             then Some (''https://twitter.com/'' @ the username) else None),
                          timestamp = t_created_at t,
                          upvotes = metrics_get metrics ''like_count'',
                          comments = metrics_get metrics ''reply_count'',
                          shares = metrics_get metrics ''retweet_count''
                                   + metrics_get metrics ''quote_count'',
                          interaction_score = score,
                          sentiment = fst sent,
                          sentiment_score = snd sent,
                          tags = tgs,
                          product_mentioned = products,
                          category = cat,
                          subreddit = None,
                          repository = None,
                          issue_number = None,
                          language = ''en''\<rparr>)"

text \<open>
  The Twitter client: the user lookup gives the user's id, or nothing when the user is
  unknown or the request fails (in both cases the collector returns no records and sends
  nothing more); the two listings give the tweets of the answer, none when the answer is
  empty or the request fails.
\<close>

record twitter_api =
  get_user :: "string \<Rightarrow> string option"
  get_users_tweets :: "string \<Rightarrow> int \<Rightarrow> tweet list"
  search_recent_tweets :: "string \<Rightarrow> int \<Rightarrow> tweet list"

datatype twitter_call =
  Get_user string
  | Get_users_tweets string int
  | Search_recent_tweets string int

text \<open>\<open>TwitterCollector._collect_from_user\<close>.\<close>

definition collect_from_user ::
  "twitter_api \<Rightarrow> (string \<Rightarrow> rat) \<Rightarrow> string \<Rightarrow> int \<Rightarrow> twitter_call list \<times> demand list" where
  "collect_from_user api polarity username cnt =
     (case get_user api username of
        None \<Rightarrow> ([Get_user username], [])
      | Some uid \<Rightarrow>
          ([Get_user username, Get_users_tweets uid (min cnt 100)],
           List.map_filter (\<lambda>t. parse_tweet polarity t (Some username))
             (get_users_tweets api uid (min cnt 100))))"

text \<open>\<open>TwitterCollector._search_twitter\<close>.\<close>

definition search_twitter ::
  "twitter_api \<Rightarrow> (string \<Rightarrow> rat) \<Rightarrow> string \<Rightarrow> int \<Rightarrow> twitter_call list \<times> demand list" where
  "search_twitter api polarity query cnt =
     (let enhanced_query =
            query @ '' (\"feature request\" OR \"missing feature\" OR \"needs\" OR \"should have\" OR \"want\") -is:retweet''
      in ([Search_recent_tweets enhanced_query (min cnt 100)],
          List.map_filter (\<lambda>t. parse_tweet polarity t None)
            (search_recent_tweets api enhanced_query (min cnt 100))))"

text \<open>
  \<open>TwitterCollector.collect\<close>. The collector's \<open>client\<close> is \<open>None\<close> when it was built
  without a bearer token.
\<close>

definition twitter_collect ::
  "twitter_api option \<Rightarrow> (string \<Rightarrow> rat) \<Rightarrow> string option \<Rightarrow> string option \<Rightarrow> int
     \<Rightarrow> twitter_call list \<times> demand list" where
  "twitter_collect client polarity query usr cnt =
     (case client of
        None \<Rightarrow> ([], [])
      | Some api \<Rightarrow>
          if truthy usr then collect_from_user api polarity (the usr) cnt
          else if truthy query then search_twitter api polarity (the query) cnt
          else ([], []))"

section \<open>The ingestion coordinator\<close>

datatype platform_enum = Reddit | Github | Twitter | All_platforms

fun platform_value :: "platform_enum \<Rightarrow> string" where
  "platform_value Reddit = ''reddit''"
| "platform_value Github = ''github''"
| "platform_value Twitter = ''twitter''"
| "platform_value All_platforms = ''all''"

datatype time_filter_enum = Hour | Day | Week | Month | Year

fun time_filter_value :: "time_filter_enum \<Rightarrow> string" where
  "time_filter_value Hour = ''hour''"
| "time_filter_value Day = ''day''"
| "time_filter_value Week = ''week''"
| "time_filter_value Month = ''month''"
| "time_filter_value Year = ''year''"

text \<open>\<open>CollectRequest\<close>, \<open>CollectResponse\<close>, and the part of the settings that the run reads.\<close>

record collect_request =
  req_platform :: platform_enum
  req_query :: "string option"
  req_subreddit :: "string option"
  req_repo :: "string option"
  req_user :: "string option"
  req_time_filter :: time_filter_enum
  req_limit :: int

text \<open>
  The message of the response is a fixed sentence around the platform's value and the
  number of saved records; the model keeps the two.
\<close>

record collect_response =
  success :: bool
  message :: "string \<times> int"
  collected_count :: int
  resp_platform :: platform_enum

record settings =
  twitter_bearer_token :: string

text \<open>
  An \<open>HTTPException\<close> carries the status code and one of the three details of the
  endpoint: platform not supported, Twitter API not configured, collection failed (with
  the exception's text).
\<close>

datatype detail = Unsupported_platform | Twitter_not_configured | Collect_failed py_exception

datatype http_exception = HTTPException int detail

text \<open>The outside world of a run: the three services and the sentiment analyzer.\<close>

record services =
  reddit_service :: reddit_api
  github_service :: github_api
  twitter_service :: twitter_api
  polarity_scores :: "string \<Rightarrow> rat"

datatype api_call = Reddit_call reddit_call | Github_call github_call | Twitter_call twitter_call

text \<open>
  The collector objects. \<open>TwitterCollector.__init__\<close> creates the client only when the
  bearer token is not empty.
\<close>

datatype collector =
  RedditCollector reddit_api
  | GitHubCollector github_api
  | TwitterCollector "twitter_api option"

definition new_TwitterCollector :: "settings \<Rightarrow> twitter_api \<Rightarrow> collector" where
  "new_TwitterCollector st api =
     TwitterCollector (if twitter_bearer_token st \<noteq> [] then Some api else None)"

text \<open>\<open>TwitterCollector.is_configured\<close>.\<close>

fun is_configured :: "collector \<Rightarrow> bool" where
  "is_configured (TwitterCollector client) = (client \<noteq> None)"
| "is_configured (RedditCollector api) = True"
| "is_configured (GitHubCollector api) = True"

text \<open>
  The database session (\<open>autoflush=False\<close>): \<open>db_rows\<close> are the rows of the table
  \<open>demands\<close>, \<open>db_pending\<close> the objects added to the session and not yet written. A
  \<open>select\<close> reads the rows only; \<open>commit\<close> writes the pending objects, \<open>rollback\<close> drops
  them. The table has no uniqueness constraint on \<open>source_url\<close>.
\<close>

record db_session =
  db_rows :: "demand list"
  db_pending :: "demand list"

definition db_add :: "db_session \<Rightarrow> demand \<Rightarrow> db_session" where
  "db_add db d = db\<lparr>db_pending := db_pending db @ [d]\<rparr>"

definition db_commit :: "db_session \<Rightarrow> db_session" where
  "db_commit db = \<lparr>db_rows = db_rows db @ db_pending db, db_pending = []\<rparr>"

definition db_rollback :: "db_session \<Rightarrow> db_session" where
  "db_rollback db = db\<lparr>db_pending := []\<rparr>"

text \<open>
  \<open>select(Demand).where(Demand.source_url == url)\<close> followed by \<open>scalar_one_or_none()\<close>:
  no row gives \<open>None\<close>, one row gives the row, more than one raises.
\<close>

definition scalar_one_or_none :: "db_session \<Rightarrow> string \<Rightarrow> py_exception + demand option" where
  "scalar_one_or_none db url =
     (case filter (\<lambda>r. source_url r = url) (db_rows db) of
        [] \<Rightarrow> Inr None
      | [r] \<Rightarrow> Inr (Some r)
      | r # r' # rs \<Rightarrow> Inl MultipleResultsFound)"

text \<open>The loop of \<open>collect_data\<close> that stores the collected records.\<close>

fun persist_loop :: "db_session \<Rightarrow> demand list \<Rightarrow> int \<Rightarrow> py_exception + (db_session \<times> int)" where
  "persist_loop db [] saved_count = Inr (db, saved_count)"
| "persist_loop db (d # ds) saved_count =
     (case scalar_one_or_none db (source_url d) of
        Inl e \<Rightarrow> Inl e
      | Inr (Some existing) \<Rightarrow> persist_loop db ds saved_count
      | Inr None \<Rightarrow> persist_loop (db_add db d) ds (saved_count + 1))"

text \<open>
  The call \<open>collector.collect(query=..., subreddit=..., repo=..., user=..., time_filter=...,
  limit=...)\<close>. \<open>collect_kwargs\<close> are the keywords of the call, in its order;
  \<open>collect_params\<close> are the parameters of the three \<open>collect\<close> methods. Python raises
  \<open>TypeError\<close> for the first keyword that the method does not have; otherwise the method
  runs, with its default for every parameter the call does not give.
\<close>

definition collect_kwargs :: "string list" where
  "collect_kwargs = [''query'', ''subreddit'', ''repo'', ''user'', ''time_filter'', ''limit'']"

fun collect_params :: "collector \<Rightarrow> string list" where
  "collect_params (RedditCollector api) = [''query'', ''subreddit'', ''time_filter'', ''limit'']"
| "collect_params (GitHubCollector api) = [''query'', ''repo'', ''state'', ''limit'']"
| "collect_params (TwitterCollector client) = [''query'', ''user'', ''count'']"

fun run_collect ::
  "collector \<Rightarrow> (string \<Rightarrow> rat) \<Rightarrow> collect_request \<Rightarrow> api_call list \<times> demand list" where
  "run_collect (RedditCollector api) polarity req =
     (let r = reddit_collect api polarity (req_query req) (req_subreddit req)
                (time_filter_value (req_time_filter req)) (req_limit req)
      in (map Reddit_call (fst r), snd r))"
| "run_collect (GitHubCollector api) polarity req =
     (let r = github_collect api polarity (req_query req) (req_repo req) ''open'' (req_limit req)
      in (map Github_call (fst r), snd r))"
| "run_collect (TwitterCollector client) polarity req =
     (let r = twitter_collect client polarity (req_query req) (req_user req) 50
      in (map Twitter_call (fst r), snd r))"

definition call_collect ::
  "collector \<Rightarrow> (string \<Rightarrow> rat) \<Rightarrow> collect_request
     \<Rightarrow> py_exception + (api_call list \<times> demand list)" where
  "call_collect c polarity req =
     (case find (\<lambda>k. k \<notin> set (collect_params c)) collect_kwargs of
        Some k \<Rightarrow> Inl (TypeError k)
      | None \<Rightarrow> Inr (run_collect c polarity req))"

text \<open>The choice of the collector at the head of \<open>collect_data\<close>.\<close>

fun select_collector :: "services \<Rightarrow> settings \<Rightarrow> platform_enum \<Rightarrow> http_exception + collector" where
  "select_collector sv st Reddit = Inr (RedditCollector (reddit_service sv))"
| "select_collector sv st Github = Inr (GitHubCollector (github_service sv))"
| "select_collector sv st Twitter = Inr (new_TwitterCollector st (twitter_service sv))"
| "select_collector sv st All_platforms = Inl (HTTPException 400 Unsupported_platform)"

text \<open>
  \<open>collect_data\<close>, the ingestion trigger: the session after the run, the requests sent to
  the platforms, and the response or the \<open>HTTPException\<close> raised.
\<close>

definition collect_data ::
  "services \<Rightarrow> settings \<Rightarrow> collect_request \<Rightarrow> db_session
     \<Rightarrow> db_session \<times> api_call list \<times> (http_exception + collect_response)" where
  "collect_data sv st req db =
     (case select_collector sv st (req_platform req) of
        Inl e \<Rightarrow> (db, [], Inl e)
      | Inr c \<Rightarrow>
          if req_platform req = Twitter \<and> \<not> is_configured c
          then (db, [], Inl (HTTPException 400 Twitter_not_configured))
          else
            (case call_collect c (polarity_scores sv) req of
               Inl e \<Rightarrow> (db_rollback db, [], Inl (HTTPException 500 (Collect_failed e)))
             | Inr (calls, collected_data) \<Rightarrow>
                 (case persist_loop db collected_data 0 of
                    Inl e \<Rightarrow> (db_rollback db, calls, Inl (HTTPException 500 (Collect_failed e)))
                  | Inr (db', saved_count) \<Rightarrow>
                      (db_commit db', calls,
                       Inr \<lparr>success = True,
                            message = (platform_value (req_platform req), saved_count),
                            collected_count = saved_count,
                            resp_platform = req_platform req\<rparr>))))"

section \<open>Sample services\<close>

text \<open>
  Services for the examples: an analyzer that scores every text 0, and platforms whose
  listings are empty.
\<close>

definition neutral_polarity :: "string \<Rightarrow> rat" where
  "neutral_polarity text = 0"

definition empty_reddit :: reddit_api where
  "empty_reddit c = []"

definition empty_github :: github_api where
  "empty_github c = []"

definition no_user :: "string \<Rightarrow> string option" where
  "no_user username = None"

definition no_user_tweets :: "string \<Rightarrow> int \<Rightarrow> tweet list" where
  "no_user_tweets uid n = []"

definition no_recent_tweets :: "string \<Rightarrow> int \<Rightarrow> tweet list" where
  "no_recent_tweets q n = []"

definition empty_twitter :: twitter_api where
  "empty_twitter =
     \<lparr>get_user = no_user, get_users_tweets = no_user_tweets,
      search_recent_tweets = no_recent_tweets\<rparr>"

text \<open>
  Items for the examples: for each platform one item that the classifier accepts and one
  that matches no rule, and platforms that answer every request with the two.
\<close>

definition sample_post :: submission where
  "sample_post =
     \<lparr>s_selftext = [], s_title = ''I need offline mode'', s_permalink = ''/r/webdev/1'',
      s_author = Some ''alice'', s_created_utc = 0, s_score = 5, s_upvote_ratio = 3 / 4,
      s_num_comments = 0, s_subreddit = ''webdev''\<rparr>"

definition sample_chatter :: submission where
  "sample_chatter =
     \<lparr>s_selftext = ''Say hello'', s_title = ''Weekly thread'', s_permalink = ''/r/webdev/2'',
      s_author = None, s_created_utc = 0, s_score = 1, s_upvote_ratio = 1,
      s_num_comments = 3, s_subreddit = ''webdev''\<rparr>"

definition sample_reddit :: reddit_api where
  "sample_reddit c = [sample_post, sample_chatter]"

definition sample_issue :: issue where
  "sample_issue =
     \<lparr>i_body = Some ''It crashes on startup'', i_title = ''Startup'', i_labels = [''bug''],
      i_html_url = ''https://github.com/facebook/react/issues/1'', i_user = None,
      i_created_at = 0, i_reactions = [(''total_count'', 2), (''+1'', 2)], i_comments = 1,
      i_repository = None, i_number = 1\<rparr>"

definition sample_chore :: issue where
  "sample_chore =
     \<lparr>i_body = None, i_title = ''Update dependency version'', i_labels = [],
      i_html_url = ''https://github.com/facebook/react/issues/2'', i_user = None,
      i_created_at = 0, i_reactions = [(''total_count'', 0)], i_comments = 0,
      i_repository = None, i_number = 2\<rparr>"

definition sample_github :: github_api where
  "sample_github c = [sample_chore, sample_issue]"

definition sample_tweet :: tweet where
  "sample_tweet =
     \<lparr>t_text = ''We need dark mode'', t_id = ''1'', t_created_at = 0,
      t_public_metrics = [(''like_count'', 3)], t_entities = None\<rparr>"

definition sample_mention :: tweet where
  "sample_mention =
     \<lparr>t_text = ''@notion we need an offline mode'', t_id = ''3'', t_created_at = 0,
      t_public_metrics = [(''like_count'', 1)],
      t_entities = Some [[(''username'', ''notion''), (''id'', ''7'')]]\<rparr>"

definition sample_greeting :: tweet where
  "sample_greeting =
     \<lparr>t_text = ''Good morning'', t_id = ''2'', t_created_at = 0,
      t_public_metrics = [], t_entities = None\<rparr>"

definition sample_user :: "string \<Rightarrow> string option" where
  "sample_user username = Some ''42''"

definition sample_user_tweets :: "string \<Rightarrow> int \<Rightarrow> tweet list" where
  "sample_user_tweets uid n = [sample_tweet, sample_greeting]"

definition sample_recent_tweets :: "string \<Rightarrow> int \<Rightarrow> tweet list" where
  "sample_recent_tweets q n = [sample_tweet, sample_greeting]"

definition sample_twitter :: twitter_api where
  "sample_twitter =
     \<lparr>get_user = sample_user, get_users_tweets = sample_user_tweets,
      search_recent_tweets = sample_recent_tweets\<rparr>"

section \<open>Properties\<close>

lemma py_in_sublist: "py_in kw s \<longleftrightarrow> sublist kw s"
  by (induction s) (auto simp: sublist_Cons_right)

lemma any_kw_Cons: "any_kw (k # ks) t \<longleftrightarrow> py_in k t \<or> any_kw ks t"
  by (simp add: any_kw_def)

lemma any_kw_Nil: "\<not> any_kw [] t"
  by (simp add: any_kw_def)

lemma any_kw_mono: "set ks \<subseteq> set ks' \<Longrightarrow> any_kw ks t \<Longrightarrow> any_kw ks' t"
  by (auto simp: any_kw_def list_ex_iff)

lemma reddit_complaint_has_bug_words:
  "any_kw [''bug'', ''crash'', ''error'', ''fail'', ''problem''] t
     \<Longrightarrow> any_kw reddit_complaint_keywords t"
  by (rule any_kw_mono [rotated]) (auto simp: reddit_complaint_keywords_def)

lemma reddit_bug_only_via:
  "any_kw reddit_bug_keywords t \<Longrightarrow> \<not> any_kw reddit_complaint_keywords t
     \<Longrightarrow> any_kw [''doesn't work'', ''not working'', ''glitch''] t"
  by (simp add: reddit_bug_keywords_def reddit_complaint_keywords_def any_kw_Cons any_kw_Nil)

text \<open>
  C10. A Reddit post whose lowercased title and body contain "bug", "crash", "error",
  "fail" or "problem" and no feature-request keyword is classified as a complaint, never as
  a bug report: the five words are complaint keywords, and the complaint list is tested
  before the bug list. The category bug-report is returned only when the text contains
  "doesn't work", "not working" or "glitch" (and no request and no complaint keyword).
\<close>

theorem reddit_bug_words_are_complaints:
  "(any_kw [''bug'', ''crash'', ''error'', ''fail'', ''problem''] (lower (fmt2 ttl cont))
      \<and> \<not> any_kw reddit_request_keywords (lower (fmt2 ttl cont))
      \<longrightarrow> categorize_post cont ttl = Some ''complaint''
        \<and> categorize_post cont ttl \<noteq> Some ''bug-report'')
   \<and> (categorize_post cont ttl = Some ''bug-report''
      \<longrightarrow> any_kw [''doesn't work'', ''not working'', ''glitch''] (lower (fmt2 ttl cont))
        \<and> \<not> any_kw reddit_request_keywords (lower (fmt2 ttl cont))
        \<and> \<not> any_kw reddit_complaint_keywords (lower (fmt2 ttl cont)))"
proof (intro conjI impI)
  assume h: "any_kw [''bug'', ''crash'', ''error'', ''fail'', ''problem''] (lower (fmt2 ttl cont))
      \<and> \<not> any_kw reddit_request_keywords (lower (fmt2 ttl cont))"
  then have c: "any_kw reddit_complaint_keywords (lower (fmt2 ttl cont))"
    by (simp add: reddit_complaint_has_bug_words)
  from h c show "categorize_post cont ttl = Some ''complaint''"
    by (simp add: categorize_post_def)
  then show "categorize_post cont ttl \<noteq> Some ''bug-report''"
    by simp
next
  assume b: "categorize_post cont ttl = Some ''bug-report''"
  then show r: "\<not> any_kw reddit_request_keywords (lower (fmt2 ttl cont))"
    by (auto simp: categorize_post_def Let_def split: if_splits)
  from b show c: "\<not> any_kw reddit_complaint_keywords (lower (fmt2 ttl cont))"
    by (auto simp: categorize_post_def Let_def split: if_splits)
  from b r c have "any_kw reddit_bug_keywords (lower (fmt2 ttl cont))"
    by (auto simp: categorize_post_def Let_def split: if_splits)
  from this c show "any_kw [''doesn't work'', ''not working'', ''glitch''] (lower (fmt2 ttl cont))"
    by (rule reddit_bug_only_via)
qed

theorem reddit_bug_words_are_complaints_witness:
  "categorize_post ''there is an error'' ''App crash'' = Some ''complaint''
   \<and> categorize_post ''the screen flickers'' ''Glitch'' = Some ''bug-report''
   \<and> any_kw [''doesn't work'', ''not working'', ''glitch'']
         (lower (fmt2 ''Glitch'' ''the screen flickers''))"
proof -
  have h1: "any_kw [''bug'', ''crash'', ''error'', ''fail'', ''problem'']
              (lower (fmt2 ''App crash'' ''there is an error''))
            \<and> \<not> any_kw reddit_request_keywords (lower (fmt2 ''App crash'' ''there is an error''))"
    by code_simp
  have h2: "categorize_post ''the screen flickers'' ''Glitch'' = Some ''bug-report''"
    by code_simp
  from h1 reddit_bug_words_are_complaints [where ttl = "''App crash''" and cont = "''there is an error''"]
  have "categorize_post ''there is an error'' ''App crash'' = Some ''complaint''"
    by blast
  moreover from h2 reddit_bug_words_are_complaints [where ttl = "''Glitch''" and cont = "''the screen flickers''"]
  have "any_kw [''doesn't work'', ''not working'', ''glitch'']
          (lower (fmt2 ''Glitch'' ''the screen flickers''))"
    by blast
  ultimately show ?thesis using h2 by blast
qed

subsection \<open>The ingestion trigger\<close>

lemma call_collect_raises:
  "call_collect (RedditCollector ra) pol req = Inl (TypeError ''repo'')"
  "call_collect (GitHubCollector ga) pol req = Inl (TypeError ''subreddit'')"
  "call_collect (TwitterCollector cl) pol req = Inl (TypeError ''subreddit'')"
  by (simp_all add: call_collect_def collect_kwargs_def)

text \<open>No run of the trigger returns a response: whatever the request, it raises.\<close>

lemma collect_data_never_succeeds:
  "snd (snd (collect_data sv st req db)) \<noteq> Inr resp"
  by (cases "req_platform req")
     (simp_all add: collect_data_def call_collect_raises new_TwitterCollector_def)

text \<open>
  C1. The claim is that a run of the trigger for reddit, github or twitter calls the
  collector, stores the new records and returns a success report. The code does not: the
  call of \<open>collect\<close> passes the keywords query, subreddit, repo, user, time_filter and limit
  to every collector, each \<open>collect\<close> lacks some of them, so the call raises
  \<open>TypeError\<close> before the collector runs; the handler rolls the session back and the run
  ends with status 500. The three requests below (a Reddit query, a GitHub repository, a
  Twitter query with a bearer token configured) all end so, with nothing sent to the
  platform.
\<close>

theorem run_collection_raises:
  "collect_data sv st
     \<lparr>req_platform = Reddit, req_query = Some ''notion offline'', req_subreddit = None,
      req_repo = None, req_user = None, req_time_filter = Month, req_limit = 50\<rparr> db
   = (db_rollback db, [], Inl (HTTPException 500 (Collect_failed (TypeError ''repo''))))
   \<and> collect_data sv st
     \<lparr>req_platform = Github, req_query = None, req_subreddit = None,
      req_repo = Some ''facebook/react'', req_user = None, req_time_filter = Month,
      req_limit = 50\<rparr> db
   = (db_rollback db, [], Inl (HTTPException 500 (Collect_failed (TypeError ''subreddit''))))
   \<and> collect_data sv \<lparr>twitter_bearer_token = ''token''\<rparr>
     \<lparr>req_platform = Twitter, req_query = Some ''notion'', req_subreddit = None,
      req_repo = None, req_user = None, req_time_filter = Month, req_limit = 50\<rparr> db
   = (db_rollback db, [], Inl (HTTPException 500 (Collect_failed (TypeError ''subreddit''))))"
  by (simp add: collect_data_def call_collect_raises new_TwitterCollector_def)

subsection \<open>The persist loop\<close>

text \<open>
  C2. The claim is that the persist loop never leaves two stored records with the same
  \<open>source_url\<close>, for every store and every collector output, and that a second run with
  the same output inserts nothing. The loop looks a record up among the rows of the table
  only; a record added earlier in the same run is pending, not a row, and is not seen. On
  the empty store, an output that holds the same record twice is inserted twice, and the
  commit stores both. The second run with the same output finds two rows for the address
  and raises \<open>MultipleResultsFound\<close>.
\<close>

theorem persist_loop_duplicate_in_batch:
  "persist_loop \<lparr>db_rows = [], db_pending = []\<rparr> [d, d] 0
     = Inr (\<lparr>db_rows = [], db_pending = [d, d]\<rparr>, 2)
   \<and> db_commit \<lparr>db_rows = [], db_pending = [d, d]\<rparr> = \<lparr>db_rows = [d, d], db_pending = []\<rparr>
   \<and> persist_loop \<lparr>db_rows = [d, d], db_pending = []\<rparr> [d, d] 0 = Inl MultipleResultsFound"
  by (simp add: scalar_one_or_none_def db_add_def db_commit_def)

text \<open>
  What the loop does guarantee. On a table whose rows have pairwise different addresses the
  loop never raises, adds exactly the records of the output whose address is not a row, and
  leaves the rows alone. If moreover the output itself holds no address twice, the table
  after the commit has pairwise different addresses again, and a second run with the same
  output saves nothing.
\<close>

lemma filter_key_distinct:
  "distinct (map f xs) \<Longrightarrow> filter (\<lambda>r. f r = u) xs = [] \<or> (\<exists>r. filter (\<lambda>r. f r = u) xs = [r])"
  by (induction xs) (auto simp: filter_empty_conv image_iff)

lemma scalar_absent:
  "u \<notin> source_url ` set (db_rows db) \<Longrightarrow> scalar_one_or_none db u = Inr None"
proof -
  assume "u \<notin> source_url ` set (db_rows db)"
  then have "filter (\<lambda>r. source_url r = u) (db_rows db) = []"
    by (auto simp: filter_empty_conv)
  then show ?thesis by (simp add: scalar_one_or_none_def)
qed

lemma scalar_present:
  assumes "distinct (map source_url (db_rows db))" and "u \<in> source_url ` set (db_rows db)"
  shows "\<exists>r. scalar_one_or_none db u = Inr (Some r)"
proof -
  from assms(2) have "filter (\<lambda>r. source_url r = u) (db_rows db) \<noteq> []"
    by (auto simp: filter_empty_conv)
  with filter_key_distinct [OF assms(1), of u]
  obtain r where "filter (\<lambda>r. source_url r = u) (db_rows db) = [r]" by blast
  then show ?thesis by (simp add: scalar_one_or_none_def)
qed

lemma persist_loop_distinct_rows:
  "distinct (map source_url (db_rows db)) \<Longrightarrow>
   persist_loop db ds n =
     Inr (db\<lparr>db_pending := db_pending db @ filter (\<lambda>d. source_url d \<notin> source_url ` set (db_rows db)) ds\<rparr>,
          n + int (length (filter (\<lambda>d. source_url d \<notin> source_url ` set (db_rows db)) ds)))"
proof (induction ds arbitrary: db n)
  case Nil
  then show ?case by simp
next
  case (Cons d ds)
  show ?case
  proof (cases "source_url d \<in> source_url ` set (db_rows db)")
    case True
    with scalar_present [OF Cons.prems] obtain r
      where "scalar_one_or_none db (source_url d) = Inr (Some r)" by blast
    with True Cons.IH [OF Cons.prems, of n] show ?thesis by simp
  next
    case False
    then have s: "scalar_one_or_none db (source_url d) = Inr None"
      by (rule scalar_absent)
    have r: "db_rows (db_add db d) = db_rows db" by (simp add: db_add_def)
    from Cons.prems r have "distinct (map source_url (db_rows (db_add db d)))" by simp
    from Cons.IH [OF this, of "n + 1"] s False r show ?thesis
      by (simp add: db_add_def)
  qed
qed

lemma persist_distinct_batch:
  assumes "distinct (map source_url (db_rows db))" "db_pending db = []"
    and "distinct (map source_url ds)"
    and "persist_loop db ds 0 = Inr (db', n)"
  shows "distinct (map source_url (db_rows (db_commit db')))"
    and "persist_loop (db_commit db') ds 0 = Inr (db_commit db', 0)"
proof -
  let ?new = "filter (\<lambda>d. source_url d \<notin> source_url ` set (db_rows db)) ds"
  from assms(4) persist_loop_distinct_rows [OF assms(1), of ds 0]
  have db': "db' = db\<lparr>db_pending := db_pending db @ ?new\<rparr>" by simp
  then have rows: "db_rows (db_commit db') = db_rows db @ ?new"
    by (simp add: db_commit_def assms(2))
  have "distinct (map source_url ?new)"
    using assms(3) by (simp add: distinct_map_filter)
  moreover have "set (map source_url (db_rows db)) \<inter> set (map source_url ?new) = {}"
    by (auto simp: image_iff)
  ultimately show d: "distinct (map source_url (db_rows (db_commit db')))"
    using assms(1) rows by simp
  have "filter (\<lambda>d. source_url d \<notin> source_url ` set (db_rows (db_commit db'))) ds = []"
    unfolding rows by (auto simp: filter_empty_conv)
  with persist_loop_distinct_rows [OF d, of ds 0]
  show "persist_loop (db_commit db') ds 0 = Inr (db_commit db', 0)"
    by (simp add: db_commit_def)
qed

subsection \<open>The Reddit interaction score\<close>

lemma pow2_pos: "0 < pow2 k"
  by (simp add: pow2_def)

lemma py_round_nonneg: "0 \<le> x \<Longrightarrow> 0 \<le> py_round x"
  by (auto simp: py_round_def Let_def)

lemma to_double_nonneg: "to_double x = Some y \<Longrightarrow> 0 \<le> x \<Longrightarrow> 0 \<le> y"
  by (auto simp: to_double_def Let_def pow2_pos py_round_nonneg less_imp_le
           split: if_splits)

lemma float_product_nonneg:
  "float_product ratio score = Some p \<Longrightarrow> 0 \<le> ratio \<Longrightarrow> 0 \<le> score \<Longrightarrow> 0 \<le> p"
  by (auto simp: float_product_def split: option.splits dest!: to_double_nonneg)

lemma float_interaction_score_nonneg:
  "float_interaction_score ratio score num = Some v
   \<Longrightarrow> 0 \<le> ratio \<Longrightarrow> 0 \<le> score \<Longrightarrow> 0 \<le> num \<Longrightarrow> 0 \<le> v"
  by (auto simp: float_interaction_score_def split: option.splits
           dest!: to_double_nonneg float_product_nonneg)

lemma py_int_truncates:
  "(0 \<le> v \<longrightarrow> of_int (py_int v) \<le> v \<and> v < of_int (py_int v) + 1)
   \<and> (v < 0 \<longrightarrow> v \<le> of_int (py_int v) \<and> of_int (py_int v) - 1 < v)"
  by (auto simp: py_int_def) linarith+

lemma parse_submission_Some:
  "parse_submission pol s sb = Some r \<Longrightarrow>
     categorize_post (if s_selftext s \<noteq> [] then s_selftext s else s_title s) (s_title s)
       = Some (category r)
     \<and> content r = (if s_selftext s \<noteq> [] then s_selftext s else s_title s)
     \<and> tags r = reddit_extract_tags (if s_selftext s \<noteq> [] then s_selftext s else s_title s)
                  (s_title s) (category r)
     \<and> (\<exists>v. float_interaction_score (s_upvote_ratio s) (s_score s) (s_num_comments s) = Some v
            \<and> interaction_score r = py_int v)"
  by (auto simp: parse_submission_def Let_def split: option.splits)

lemma float_examples:
  "float_interaction_score (9 / 10) 100 10 = Some 110"
  "float_interaction_score (3 / 4) (- 5) 0 = Some (- (15 / 4))"
  by code_simp+

text \<open>
  C3, as amended. For every Reddit submission that passes classification, the record's
  \<open>interaction_score\<close> is \<open>int(upvote_ratio * score + num_comments * 2)\<close>, computed as
  Python computes it: the product and the sum are floats, and \<open>int\<close> truncates the float
  sum towards zero; nothing is rounded to the nearest integer. For non-negative inputs the
  score is at least 0. For score 100, ratio 0.9 and 10 comments it is 110; for score -5,
  ratio 0.75 and no comments it is -3.
\<close>

theorem reddit_interaction_score_truncates:
  "(parse_submission pol s sb = Some r \<longrightarrow>
      (\<exists>v. float_interaction_score (s_upvote_ratio s) (s_score s) (s_num_comments s) = Some v
           \<and> interaction_score r = py_int v
           \<and> (0 \<le> v \<longrightarrow> of_int (interaction_score r) \<le> v
                          \<and> v < of_int (interaction_score r) + 1)
           \<and> (v < 0 \<longrightarrow> v \<le> of_int (interaction_score r)
                         \<and> of_int (interaction_score r) - 1 < v)))
   \<and> (parse_submission pol s sb = Some r
        \<and> 0 \<le> s_upvote_ratio s \<and> 0 \<le> s_score s \<and> 0 \<le> s_num_comments s
      \<longrightarrow> 0 \<le> interaction_score r)
   \<and> (parse_submission pol s sb = Some r
        \<and> s_score s = 100 \<and> s_upvote_ratio s = 9 / 10 \<and> s_num_comments s = 10
      \<longrightarrow> interaction_score r = 110)
   \<and> (parse_submission pol s sb = Some r
        \<and> s_score s = - 5 \<and> s_upvote_ratio s = 3 / 4 \<and> s_num_comments s = 0
      \<longrightarrow> interaction_score r = - 3)"
proof (intro conjI impI)
  assume "parse_submission pol s sb = Some r"
  then obtain v
    where v: "float_interaction_score (s_upvote_ratio s) (s_score s) (s_num_comments s) = Some v"
      and i: "interaction_score r = py_int v"
    using parse_submission_Some by blast
  from py_int_truncates [of v] i
  have "(0 \<le> v \<longrightarrow> of_int (interaction_score r) \<le> v \<and> v < of_int (interaction_score r) + 1)
        \<and> (v < 0 \<longrightarrow> v \<le> of_int (interaction_score r) \<and> of_int (interaction_score r) - 1 < v)"
    by simp
  with v i show "\<exists>v. float_interaction_score (s_upvote_ratio s) (s_score s) (s_num_comments s)
                       = Some v
           \<and> interaction_score r = py_int v
           \<and> (0 \<le> v \<longrightarrow> of_int (interaction_score r) \<le> v
                          \<and> v < of_int (interaction_score r) + 1)
           \<and> (v < 0 \<longrightarrow> v \<le> of_int (interaction_score r)
                         \<and> of_int (interaction_score r) - 1 < v)"
    by blast
next
  assume h: "parse_submission pol s sb = Some r
        \<and> 0 \<le> s_upvote_ratio s \<and> 0 \<le> s_score s \<and> 0 \<le> s_num_comments s"
  then obtain v
    where v: "float_interaction_score (s_upvote_ratio s) (s_score s) (s_num_comments s) = Some v"
      and i: "interaction_score r = py_int v"
    using parse_submission_Some by blast
  from v h have "0 \<le> v"
    using float_interaction_score_nonneg by blast
  with i show "0 \<le> interaction_score r"
    by (simp add: py_int_def)
next
  assume h: "parse_submission pol s sb = Some r
        \<and> s_score s = 100 \<and> s_upvote_ratio s = 9 / 10 \<and> s_num_comments s = 10"
  then have a: "s_score s = 100" and b: "s_upvote_ratio s = 9 / 10"
    and c: "s_num_comments s = 10"
    by blast+
  from h obtain v
    where v: "float_interaction_score (s_upvote_ratio s) (s_score s) (s_num_comments s) = Some v"
      and i: "interaction_score r = py_int v"
    using parse_submission_Some by blast
  from v have "v = 110"
    unfolding a b c by (simp add: float_examples)
  with i show "interaction_score r = 110"
    by (simp add: py_int_def)
next
  assume h: "parse_submission pol s sb = Some r
        \<and> s_score s = - 5 \<and> s_upvote_ratio s = 3 / 4 \<and> s_num_comments s = 0"
  then have a: "s_score s = - 5" and b: "s_upvote_ratio s = 3 / 4"
    and c: "s_num_comments s = 0"
    by blast+
  from h obtain v
    where v: "float_interaction_score (s_upvote_ratio s) (s_score s) (s_num_comments s) = Some v"
      and i: "interaction_score r = py_int v"
    using parse_submission_Some by blast
  from v have "v = - (15 / 4)"
    unfolding a b c by (simp add: float_examples)
  moreover have "py_int (- (15 / 4)) = - 3"
    by code_simp
  ultimately show "interaction_score r = - 3"
    using i by simp
qed

theorem reddit_interaction_score_truncates_witness:
  "map_option interaction_score
     (parse_submission neutral_polarity
        \<lparr>s_selftext = ''Please add it'', s_title = ''I need offline mode'',
         s_permalink = ''/r/webdev/2'', s_author = Some ''alice'', s_created_utc = 0,
         s_score = 100, s_upvote_ratio = 9 / 10, s_num_comments = 10,
         s_subreddit = ''webdev''\<rparr> (Some ''webdev'')) = Some 110
   \<and> map_option interaction_score
       (parse_submission neutral_polarity
          \<lparr>s_selftext = ''Please add it'', s_title = ''I need offline mode'',
           s_permalink = ''/r/webdev/3'', s_author = Some ''bob'', s_created_utc = 0,
           s_score = - 5, s_upvote_ratio = 3 / 4, s_num_comments = 0,
           s_subreddit = ''webdev''\<rparr> (Some ''webdev'')) = Some (- 3)"
proof -
  let ?s = "\<lparr>s_selftext = ''Please add it'', s_title = ''I need offline mode'',
         s_permalink = ''/r/webdev/2'', s_author = Some ''alice'', s_created_utc = 0,
         s_score = 100, s_upvote_ratio = 9 / 10, s_num_comments = 10,
         s_subreddit = ''webdev''\<rparr>"
  let ?n = "\<lparr>s_selftext = ''Please add it'', s_title = ''I need offline mode'',
           s_permalink = ''/r/webdev/3'', s_author = Some ''bob'', s_created_utc = 0,
           s_score = - 5, s_upvote_ratio = 3 / 4, s_num_comments = 0,
           s_subreddit = ''webdev''\<rparr>"
  have "map_option category (parse_submission neutral_polarity ?s (Some ''webdev''))
          = Some ''feature-request''"
    by code_simp
  then obtain r where r: "parse_submission neutral_polarity ?s (Some ''webdev'') = Some r"
    by blast
  have "map_option category (parse_submission neutral_polarity ?n (Some ''webdev''))
          = Some ''feature-request''"
    by code_simp
  then obtain r' where r': "parse_submission neutral_polarity ?n (Some ''webdev'') = Some r'"
    by blast
  note t = reddit_interaction_score_truncates
         [where pol = neutral_polarity and s = ?s and sb = "Some ''webdev''" and r = r]
  note t' = reddit_interaction_score_truncates
         [where pol = neutral_polarity and s = ?n and sb = "Some ''webdev''" and r = r']
  have "parse_submission neutral_polarity ?s (Some ''webdev'') = Some r
        \<and> 0 \<le> s_upvote_ratio ?s \<and> 0 \<le> s_score ?s \<and> 0 \<le> s_num_comments ?s"
    using r by simp
  with t have nonneg: "0 \<le> interaction_score r" by blast
  have "parse_submission neutral_polarity ?s (Some ''webdev'') = Some r
        \<and> s_score ?s = 100 \<and> s_upvote_ratio ?s = 9 / 10 \<and> s_num_comments ?s = 10"
    using r by simp
  with t have "interaction_score r = 110" by blast
  moreover have "parse_submission neutral_polarity ?n (Some ''webdev'') = Some r'
        \<and> s_score ?n = - 5 \<and> s_upvote_ratio ?n = 3 / 4 \<and> s_num_comments ?n = 0"
    using r' by simp
  with t' have "interaction_score r' = - 3" by blast
  ultimately show ?thesis using r r' by simp
qed

text \<open>
  The claim as stated, with \<open>round(upvote_ratio * score)\<close>, fails: a submission with score
  5, ratio 0.75 and no comments gets the score \<open>int(3.75) = 3\<close>, while
  \<open>round(3.75) + 0 = 4\<close>.
\<close>

theorem reddit_interaction_score_round_counterexample:
  "map_option interaction_score
     (parse_submission neutral_polarity
        \<lparr>s_selftext = [], s_title = ''I need offline mode'', s_permalink = ''/r/webdev/1'',
         s_author = None, s_created_utc = 0, s_score = 5, s_upvote_ratio = 3 / 4,
         s_num_comments = 0, s_subreddit = ''webdev''\<rparr> None) = Some 3
   \<and> spec_reddit_interaction_score (3 / 4) 5 0 = Some 4"
  by code_simp

text \<open>
  Further values of the float sum, truncated: ratio 0.57 and score 100 give 56, ratio 0.29
  and score 100 give 28 without comments and 49 with 10 comments, ratio 0.7 and score 10
  give 7.
\<close>

lemma float_truncation_examples:
  "map_option py_int (float_interaction_score (57 / 100) 100 0) = Some 56"
  "map_option py_int (float_interaction_score (29 / 100) 100 0) = Some 28"
  "map_option py_int (float_interaction_score (29 / 100) 100 10) = Some 49"
  "map_option py_int (float_interaction_score (7 / 10) 10 0) = Some 7"
  by code_simp+

subsection \<open>Fetch modes\<close>

lemma reddit_first_five:
  "take 5 reddit_subreddits = [''webdev'', ''webdevtools'', ''SaaS'', ''UIUC'', ''technology'']"
  by (simp add: reddit_subreddits_def)

lemma github_first_five:
  "take 5 github_popular_repos =
     [''facebook/react'', ''vuejs/core'', ''angular/angular'', ''microsoft/vscode'',
      ''notionhq/notion-sdk-js'']"
  by (simp add: github_popular_repos_def)

lemma reddit_sweep_eq:
  "\<not> truthy q \<Longrightarrow>
   reddit_sweep api pol subs q tf lmt =
     (map (\<lambda>s. Subreddit_new s lmt) subs,
      concat (map (\<lambda>s. List.map_filter (\<lambda>x. parse_submission pol x (Some s))
                          (api (Subreddit_new s lmt))) subs))"
  by (induction subs) (simp_all add: collect_from_subreddit_def Let_def)

lemma github_sweep_eq:
  "github_sweep api pol repos state lmt =
     (map (\<lambda>r. Repo_issues r state) repos,
      concat (map (\<lambda>r. List.map_filter (\<lambda>i. parse_issue pol i (Some r))
                          (take (nat lmt) (api (Repo_issues r state)))) repos))"
  by (induction repos) (simp_all add: collect_from_repo_def Let_def)

text \<open>
  C4, as amended. The Reddit and the GitHub collector have three fetch modes, chosen by
  which optional parameter is set (not \<open>None\<close> and not empty), the target before the
  query: with a target, one request for that subreddit or repository; else with a query,
  one search; else the default sweep, one request for each of the first five entries of
  the collector's fixed list, each with \<open>limit // 5\<close>. The Twitter collector has the first
  two modes only (user before query); with neither it sends nothing and returns no record.
\<close>

theorem collect_fetch_modes:
  "(truthy sr \<longrightarrow>
      fst (reddit_collect api pol q sr tf lmt) =
        [if truthy q then Subreddit_search (the sr) (the q) tf lmt
         else Subreddit_new (the sr) lmt])
   \<and> (\<not> truthy sr \<and> truthy q \<longrightarrow>
      fst (reddit_collect api pol q sr tf lmt) = [All_search (the q) tf lmt])
   \<and> (\<not> truthy sr \<and> \<not> truthy q \<longrightarrow>
      reddit_collect api pol q sr tf lmt =
        (map (\<lambda>s. Subreddit_new s (lmt div 5))
           [''webdev'', ''webdevtools'', ''SaaS'', ''UIUC'', ''technology''],
         concat (map (\<lambda>s. List.map_filter (\<lambda>x. parse_submission pol x (Some s))
                             (api (Subreddit_new s (lmt div 5))))
           [''webdev'', ''webdevtools'', ''SaaS'', ''UIUC'', ''technology''])))
   \<and> (truthy rp \<longrightarrow>
      fst (github_collect gapi pol q rp state lmt) = [Repo_issues (the rp) state])
   \<and> (\<not> truthy rp \<and> truthy q \<longrightarrow>
      fst (github_collect gapi pol q rp state lmt) =
        [Search_issues
           (the q @ '' label:\"enhancement\" OR label:\"feature request\" OR label:\"bug\"''
              @ (if state = ''open'' then '' state:open'' else []))])
   \<and> (\<not> truthy rp \<and> \<not> truthy q \<longrightarrow>
      github_collect gapi pol q rp state lmt =
        (map (\<lambda>r. Repo_issues r state)
           [''facebook/react'', ''vuejs/core'', ''angular/angular'', ''microsoft/vscode'',
            ''notionhq/notion-sdk-js''],
         concat (map (\<lambda>r. List.map_filter (\<lambda>i. parse_issue pol i (Some r))
                             (take (nat (lmt div 5)) (gapi (Repo_issues r state))))
           [''facebook/react'', ''vuejs/core'', ''angular/angular'', ''microsoft/vscode'',
            ''notionhq/notion-sdk-js''])))
   \<and> (truthy usr \<longrightarrow>
      fst (twitter_collect (Some tapi) pol q usr cnt) =
        Get_user (the usr)
        # (case get_user tapi (the usr) of
             None \<Rightarrow> []
           | Some uid \<Rightarrow> [Get_users_tweets uid (min cnt 100)]))
   \<and> (\<not> truthy usr \<and> truthy q \<longrightarrow>
      fst (twitter_collect (Some tapi) pol q usr cnt) =
        [Search_recent_tweets
           (the q @ '' (\"feature request\" OR \"missing feature\" OR \"needs\" OR \"should have\" OR \"want\") -is:retweet'')
           (min cnt 100)])
   \<and> (\<not> truthy usr \<and> \<not> truthy q \<longrightarrow>
      twitter_collect (Some tapi) pol q usr cnt = ([], []))"
proof (intro conjI impI)
  assume "truthy sr"
  then show "fst (reddit_collect api pol q sr tf lmt) =
        [if truthy q then Subreddit_search (the sr) (the q) tf lmt
         else Subreddit_new (the sr) lmt]"
    by (simp add: reddit_collect_def collect_from_subreddit_def Let_def)
next
  assume "\<not> truthy sr \<and> truthy q"
  then show "fst (reddit_collect api pol q sr tf lmt) = [All_search (the q) tf lmt]"
    by (simp add: reddit_collect_def search_reddit_def Let_def)
next
  assume "\<not> truthy sr \<and> \<not> truthy q"
  then have a: "\<not> truthy sr" and b: "\<not> truthy q" by simp_all
  then have "reddit_collect api pol q sr tf lmt =
      reddit_sweep api pol (take 5 reddit_subreddits) q tf (lmt div 5)"
    by (simp add: reddit_collect_def)
  then show "reddit_collect api pol q sr tf lmt =
        (map (\<lambda>s. Subreddit_new s (lmt div 5))
           [''webdev'', ''webdevtools'', ''SaaS'', ''UIUC'', ''technology''],
         concat (map (\<lambda>s. List.map_filter (\<lambda>x. parse_submission pol x (Some s))
                             (api (Subreddit_new s (lmt div 5))))
           [''webdev'', ''webdevtools'', ''SaaS'', ''UIUC'', ''technology'']))"
    by (simp only: reddit_first_five reddit_sweep_eq [OF b])
next
  assume "truthy rp"
  then show "fst (github_collect gapi pol q rp state lmt) = [Repo_issues (the rp) state]"
    by (simp add: github_collect_def collect_from_repo_def Let_def)
next
  assume "\<not> truthy rp \<and> truthy q"
  then show "fst (github_collect gapi pol q rp state lmt) =
        [Search_issues
           (the q @ '' label:\"enhancement\" OR label:\"feature request\" OR label:\"bug\"''
              @ (if state = ''open'' then '' state:open'' else []))]"
    by (simp add: github_collect_def search_github_def Let_def)
next
  assume "\<not> truthy rp \<and> \<not> truthy q"
  then have "github_collect gapi pol q rp state lmt =
      github_sweep gapi pol (take 5 github_popular_repos) state (lmt div 5)"
    by (simp add: github_collect_def)
  then show "github_collect gapi pol q rp state lmt =
        (map (\<lambda>r. Repo_issues r state)
           [''facebook/react'', ''vuejs/core'', ''angular/angular'', ''microsoft/vscode'',
            ''notionhq/notion-sdk-js''],
         concat (map (\<lambda>r. List.map_filter (\<lambda>i. parse_issue pol i (Some r))
                             (take (nat (lmt div 5)) (gapi (Repo_issues r state))))
           [''facebook/react'', ''vuejs/core'', ''angular/angular'', ''microsoft/vscode'',
            ''notionhq/notion-sdk-js'']))"
    by (simp only: github_first_five github_sweep_eq)
next
  assume "truthy usr"
  then show "fst (twitter_collect (Some tapi) pol q usr cnt) =
        Get_user (the usr)
        # (case get_user tapi (the usr) of
             None \<Rightarrow> []
           | Some uid \<Rightarrow> [Get_users_tweets uid (min cnt 100)])"
    by (simp add: twitter_collect_def collect_from_user_def Let_def split: option.splits)
next
  assume "\<not> truthy usr \<and> truthy q"
  then show "fst (twitter_collect (Some tapi) pol q usr cnt) =
        [Search_recent_tweets
           (the q @ '' (\"feature request\" OR \"missing feature\" OR \"needs\" OR \"should have\" OR \"want\") -is:retweet'')
           (min cnt 100)]"
    by (simp add: twitter_collect_def search_twitter_def Let_def)
next
  assume "\<not> truthy usr \<and> \<not> truthy q"
  then show "twitter_collect (Some tapi) pol q usr cnt = ([], [])"
    by (simp add: twitter_collect_def)
qed

theorem collect_fetch_modes_witness:
  "fst (reddit_collect empty_reddit neutral_polarity (Some ''offline'') (Some ''webdev'')
          ''month'' 50) = [Subreddit_search ''webdev'' ''offline'' ''month'' 50]
   \<and> fst (github_collect empty_github neutral_polarity (Some ''offline'')
            (Some ''facebook/react'') ''open'' 50) = [Repo_issues ''facebook/react'' ''open'']
   \<and> fst (twitter_collect (Some empty_twitter) neutral_polarity (Some ''offline'')
            (Some ''notion'') 50) = [Get_user ''notion'']
   \<and> fst (reddit_collect empty_reddit neutral_polarity (Some ''offline'') None ''month'' 50)
       = [All_search ''offline'' ''month'' 50]
   \<and> fst (github_collect empty_github neutral_polarity (Some ''offline'') None ''open'' 50)
       = [Search_issues
            ''offline label:\"enhancement\" OR label:\"feature request\" OR label:\"bug\" state:open'']
   \<and> fst (twitter_collect (Some empty_twitter) neutral_polarity (Some ''offline'') None 50)
       = [Search_recent_tweets
            ''offline (\"feature request\" OR \"missing feature\" OR \"needs\" OR \"should have\" OR \"want\") -is:retweet''
            50]
   \<and> fst (reddit_collect empty_reddit neutral_polarity None None ''month'' 50)
       = [Subreddit_new ''webdev'' 10, Subreddit_new ''webdevtools'' 10,
          Subreddit_new ''SaaS'' 10, Subreddit_new ''UIUC'' 10,
          Subreddit_new ''technology'' 10]
   \<and> fst (github_collect empty_github neutral_polarity None None ''open'' 50)
       = [Repo_issues ''facebook/react'' ''open'', Repo_issues ''vuejs/core'' ''open'',
          Repo_issues ''angular/angular'' ''open'', Repo_issues ''microsoft/vscode'' ''open'',
          Repo_issues ''notionhq/notion-sdk-js'' ''open'']
   \<and> twitter_collect (Some empty_twitter) neutral_polarity None (Some []) 50 = ([], [])"
proof -
  note target = collect_fetch_modes
    [where api = empty_reddit and gapi = empty_github and tapi = empty_twitter
       and pol = neutral_polarity and q = "Some ''offline''" and sr = "Some ''webdev''"
       and rp = "Some ''facebook/react''" and usr = "Some ''notion''"
       and tf = "''month''" and state = "''open''" and lmt = 50 and cnt = 50]
  note query = collect_fetch_modes
    [where api = empty_reddit and gapi = empty_github and tapi = empty_twitter
       and pol = neutral_polarity and q = "Some ''offline''" and sr = None
       and rp = None and usr = None
       and tf = "''month''" and state = "''open''" and lmt = 50 and cnt = 50]
  note sweep = collect_fetch_modes
    [where api = empty_reddit and gapi = empty_github and tapi = empty_twitter
       and pol = neutral_polarity and q = None and sr = None
       and rp = None and usr = "Some []"
       and tf = "''month''" and state = "''open''" and lmt = 50 and cnt = 50]
  have t: "truthy (Some ''offline'')" "truthy (Some ''webdev'')"
    "truthy (Some ''facebook/react'')" "truthy (Some ''notion'')"
    "\<not> truthy None" "\<not> truthy (Some [])"
    by (simp_all add: truthy_def)
  from target t have
    "fst (reddit_collect empty_reddit neutral_polarity (Some ''offline'') (Some ''webdev'')
          ''month'' 50) = [Subreddit_search ''webdev'' ''offline'' ''month'' 50]"
    "fst (github_collect empty_github neutral_polarity (Some ''offline'')
            (Some ''facebook/react'') ''open'' 50) = [Repo_issues ''facebook/react'' ''open'']"
    "fst (twitter_collect (Some empty_twitter) neutral_polarity (Some ''offline'')
            (Some ''notion'') 50) = [Get_user ''notion'']"
    by (simp_all add: empty_twitter_def no_user_def)
  moreover from query t have
    "fst (reddit_collect empty_reddit neutral_polarity (Some ''offline'') None ''month'' 50)
       = [All_search ''offline'' ''month'' 50]"
    "fst (github_collect empty_github neutral_polarity (Some ''offline'') None ''open'' 50)
       = [Search_issues
            ''offline label:\"enhancement\" OR label:\"feature request\" OR label:\"bug\" state:open'']"
    "fst (twitter_collect (Some empty_twitter) neutral_polarity (Some ''offline'') None 50)
       = [Search_recent_tweets
            ''offline (\"feature request\" OR \"missing feature\" OR \"needs\" OR \"should have\" OR \"want\") -is:retweet''
            50]"
    by simp_all
  moreover from sweep t have
    "fst (reddit_collect empty_reddit neutral_polarity None None ''month'' 50)
       = [Subreddit_new ''webdev'' 10, Subreddit_new ''webdevtools'' 10,
          Subreddit_new ''SaaS'' 10, Subreddit_new ''UIUC'' 10,
          Subreddit_new ''technology'' 10]"
    "fst (github_collect empty_github neutral_polarity None None ''open'' 50)
       = [Repo_issues ''facebook/react'' ''open'', Repo_issues ''vuejs/core'' ''open'',
          Repo_issues ''angular/angular'' ''open'', Repo_issues ''microsoft/vscode'' ''open'',
          Repo_issues ''notionhq/notion-sdk-js'' ''open'']"
    "twitter_collect (Some empty_twitter) neutral_polarity None (Some []) 50 = ([], [])"
    by simp_all
  ultimately show ?thesis by blast
qed

text \<open>
  The claim as stated, with a default sweep for every collector, fails for Twitter: a
  configured Twitter collector called without user and query sends no request at all.
\<close>

theorem twitter_default_sweep_counterexample:
  "twitter_collect (Some empty_twitter) neutral_polarity None None 50 = ([], [])"
  by (simp add: twitter_collect_def truthy_def)

subsection \<open>Twitter without credentials\<close>

text \<open>
  Called without a client, \<open>TwitterCollector.collect\<close> itself sends nothing and returns the
  empty list; the condition is told apart by \<open>is_configured\<close>, which the trigger asks
  before it calls \<open>collect\<close>.
\<close>

lemma twitter_collect_without_client:
  "twitter_collect None pol q usr cnt = ([], [])"
  by (simp add: twitter_collect_def)

text \<open>
  C5. When the Twitter bearer token is not configured, a Twitter collection run ends with
  the exception of status 400 whose detail is "Twitter API not configured", before any
  request is sent to a platform and with the session untouched. No other run ends with
  that exception, so the outcome is told apart from every other one, a success report with
  zero saved records included (that would be a response, not an exception).
\<close>

theorem twitter_not_configured_reported:
  "(twitter_bearer_token st = [] \<and> req_platform req = Twitter \<longrightarrow>
      \<not> is_configured (new_TwitterCollector st (twitter_service sv))
      \<and> collect_data sv st req db = (db, [], Inl (HTTPException 400 Twitter_not_configured)))
   \<and> (twitter_bearer_token st \<noteq> [] \<or> req_platform req \<noteq> Twitter \<longrightarrow>
      snd (snd (collect_data sv st req db)) \<noteq> Inl (HTTPException 400 Twitter_not_configured))"
proof (intro conjI impI)
  assume h: "twitter_bearer_token st = [] \<and> req_platform req = Twitter"
  then show "\<not> is_configured (new_TwitterCollector st (twitter_service sv))"
    by (simp add: new_TwitterCollector_def)
  from h show "collect_data sv st req db
      = (db, [], Inl (HTTPException 400 Twitter_not_configured))"
    by (simp add: collect_data_def new_TwitterCollector_def)
next
  assume "twitter_bearer_token st \<noteq> [] \<or> req_platform req \<noteq> Twitter"
  then show "snd (snd (collect_data sv st req db))
      \<noteq> Inl (HTTPException 400 Twitter_not_configured)"
    by (cases "req_platform req")
       (auto simp: collect_data_def call_collect_raises new_TwitterCollector_def)
qed

theorem twitter_not_configured_reported_witness:
  "collect_data \<lparr>reddit_service = empty_reddit, github_service = empty_github,
                  twitter_service = empty_twitter, polarity_scores = neutral_polarity\<rparr>
     \<lparr>twitter_bearer_token = []\<rparr>
     \<lparr>req_platform = Twitter, req_query = Some ''notion'', req_subreddit = None,
      req_repo = None, req_user = None, req_time_filter = Month, req_limit = 50\<rparr>
     \<lparr>db_rows = [], db_pending = []\<rparr>
   = (\<lparr>db_rows = [], db_pending = []\<rparr>, [], Inl (HTTPException 400 Twitter_not_configured))
   \<and> snd (snd (collect_data \<lparr>reddit_service = empty_reddit, github_service = empty_github,
                  twitter_service = empty_twitter, polarity_scores = neutral_polarity\<rparr>
     \<lparr>twitter_bearer_token = ''token''\<rparr>
     \<lparr>req_platform = Twitter, req_query = Some ''notion'', req_subreddit = None,
      req_repo = None, req_user = None, req_time_filter = Month, req_limit = 50\<rparr>
     \<lparr>db_rows = [], db_pending = []\<rparr>))
   \<noteq> Inl (HTTPException 400 Twitter_not_configured)"
  using twitter_not_configured_reported
      [where st = "\<lparr>twitter_bearer_token = []\<rparr>"
         and req = "\<lparr>req_platform = Twitter, req_query = Some ''notion'', req_subreddit = None,
      req_repo = None, req_user = None, req_time_filter = Month, req_limit = 50\<rparr>"
         and db = "\<lparr>db_rows = [], db_pending = []\<rparr>"
         and sv = "\<lparr>reddit_service = empty_reddit, github_service = empty_github,
                  twitter_service = empty_twitter, polarity_scores = neutral_polarity\<rparr>"]
    twitter_not_configured_reported
      [where st = "\<lparr>twitter_bearer_token = ''token''\<rparr>"
         and req = "\<lparr>req_platform = Twitter, req_query = Some ''notion'', req_subreddit = None,
      req_repo = None, req_user = None, req_time_filter = Month, req_limit = 50\<rparr>"
         and db = "\<lparr>db_rows = [], db_pending = []\<rparr>"
         and sv = "\<lparr>reddit_service = empty_reddit, github_service = empty_github,
                  twitter_service = empty_twitter, polarity_scores = neutral_polarity\<rparr>"]
  by simp

subsection \<open>Classification of GitHub issues\<close>

lemma label_category_no_match:
  "\<forall>l\<in>set labels. \<not> any_kw [''enhancement'', ''feature'', ''request'', ''bug'', ''error'', ''crash'']
                         (lower l)
   \<Longrightarrow> label_category labels = None"
  by (induction labels) (simp_all add: any_kw_Cons any_kw_Nil Let_def)

lemma label_category_first_match:
  "\<forall>p\<in>set pre. \<not> any_kw [''enhancement'', ''feature'', ''request'', ''bug'', ''error'', ''crash'']
                      (lower p)
   \<Longrightarrow> any_kw [''enhancement'', ''feature'', ''request'', ''bug'', ''error'', ''crash''] (lower l)
   \<Longrightarrow> label_category (pre @ l # post) =
         Some (if any_kw [''enhancement'', ''feature'', ''request''] (lower l)
               then ''feature-request'' else ''bug-report'')"
  by (induction pre) (auto simp: any_kw_Cons any_kw_Nil Let_def)

text \<open>
  C6, as amended. The classification of a GitHub issue reads the labels, in their order,
  before any keyword of title and body: the first label whose lowercased name contains one
  of the six words decides, feature-request if it contains "enhancement", "feature" or
  "request", bug-report otherwise (it then contains "bug", "error" or "crash"). Only when
  no label contains any of the six words do the keywords of title and body decide, for the
  same two categories, the feature keywords first; with no keyword the issue is rejected.
  An issue whose only label is "bug" is a bug report whatever its title and body say.
\<close>

theorem github_first_matching_label_decides:
  "((\<forall>p\<in>set pre. \<not> any_kw [''enhancement'', ''feature'', ''request'', ''bug'', ''error'',
                               ''crash''] (lower p))
      \<and> any_kw [''enhancement'', ''feature'', ''request''] (lower l)
      \<longrightarrow> categorize_issue cont ttl (pre @ l # post) = Some ''feature-request'')
   \<and> ((\<forall>p\<in>set pre. \<not> any_kw [''enhancement'', ''feature'', ''request'', ''bug'', ''error'',
                                 ''crash''] (lower p))
      \<and> \<not> any_kw [''enhancement'', ''feature'', ''request''] (lower l)
      \<and> any_kw [''bug'', ''error'', ''crash''] (lower l)
      \<longrightarrow> categorize_issue cont ttl (pre @ l # post) = Some ''bug-report'')
   \<and> ((\<forall>l\<in>set labels. \<not> any_kw [''enhancement'', ''feature'', ''request'', ''bug'', ''error'',
                                    ''crash''] (lower l))
      \<longrightarrow> categorize_issue cont ttl labels =
            (if any_kw github_feature_keywords (lower (fmt2 ttl cont))
             then Some ''feature-request''
             else if any_kw github_bug_keywords (lower (fmt2 ttl cont))
             then Some ''bug-report'' else None))
   \<and> categorize_issue cont ttl [''bug''] = Some ''bug-report''"
proof (intro conjI impI)
  assume h: "(\<forall>p\<in>set pre. \<not> any_kw [''enhancement'', ''feature'', ''request'', ''bug'', ''error'',
                               ''crash''] (lower p))
      \<and> any_kw [''enhancement'', ''feature'', ''request''] (lower l)"
  then have "any_kw [''enhancement'', ''feature'', ''request'', ''bug'', ''error'', ''crash'']
               (lower l)"
    by (auto simp: any_kw_Cons any_kw_Nil)
  with h have "label_category (pre @ l # post) = Some ''feature-request''"
    by (simp add: label_category_first_match)
  then show "categorize_issue cont ttl (pre @ l # post) = Some ''feature-request''"
    by (simp add: categorize_issue_def)
next
  assume h: "(\<forall>p\<in>set pre. \<not> any_kw [''enhancement'', ''feature'', ''request'', ''bug'', ''error'',
                                 ''crash''] (lower p))
      \<and> \<not> any_kw [''enhancement'', ''feature'', ''request''] (lower l)
      \<and> any_kw [''bug'', ''error'', ''crash''] (lower l)"
  then have "any_kw [''enhancement'', ''feature'', ''request'', ''bug'', ''error'', ''crash'']
               (lower l)"
    by (auto simp: any_kw_Cons any_kw_Nil)
  with h have "label_category (pre @ l # post) = Some ''bug-report''"
    by (simp add: label_category_first_match)
  then show "categorize_issue cont ttl (pre @ l # post) = Some ''bug-report''"
    by (simp add: categorize_issue_def)
next
  assume "\<forall>l\<in>set labels. \<not> any_kw [''enhancement'', ''feature'', ''request'', ''bug'', ''error'',
                                    ''crash''] (lower l)"
  then have "label_category labels = None"
    by (rule label_category_no_match)
  then show "categorize_issue cont ttl labels =
            (if any_kw github_feature_keywords (lower (fmt2 ttl cont))
             then Some ''feature-request''
             else if any_kw github_bug_keywords (lower (fmt2 ttl cont))
             then Some ''bug-report'' else None)"
    by (simp add: categorize_issue_def)
next
  have "label_category [''bug''] = Some ''bug-report''"
    by code_simp
  then show "categorize_issue cont ttl [''bug''] = Some ''bug-report''"
    by (simp add: categorize_issue_def)
qed

theorem github_first_matching_label_decides_witness:
  "categorize_issue ''It crashes on startup'' ''Startup''
     [''docs'', ''Feature-Request'', ''bug''] = Some ''feature-request''
   \<and> categorize_issue ''We would like a feature'' ''Startup''
     [''docs'', ''Crash'', ''enhancement''] = Some ''bug-report''
   \<and> categorize_issue [] ''Update dependency version'' [''docs'', ''question''] = None
   \<and> categorize_issue ''It crashes on startup, a feature I use'' ''Startup'' [''bug'']
       = Some ''bug-report''"
proof -
  have pre: "\<forall>p\<in>set [''docs'']. \<not> any_kw [''enhancement'', ''feature'', ''request'', ''bug'',
                                         ''error'', ''crash''] (lower p)"
    by code_simp
  have l1: "any_kw [''enhancement'', ''feature'', ''request''] (lower ''Feature-Request'')"
    by code_simp
  have l2: "\<not> any_kw [''enhancement'', ''feature'', ''request''] (lower ''Crash'')
            \<and> any_kw [''bug'', ''error'', ''crash''] (lower ''Crash'')"
    by code_simp
  have l3: "\<forall>l\<in>set [''docs'', ''question'']. \<not> any_kw [''enhancement'', ''feature'',
               ''request'', ''bug'', ''error'', ''crash''] (lower l)"
    by code_simp
  have k3: "\<not> any_kw github_feature_keywords (lower (fmt2 ''Update dependency version'' []))
            \<and> \<not> any_kw github_bug_keywords (lower (fmt2 ''Update dependency version'' []))"
    by code_simp
  from pre l1 github_first_matching_label_decides
         [where pre = "[''docs'']" and l = "''Feature-Request''" and post = "[''bug'']"
            and cont = "''It crashes on startup''" and ttl = "''Startup''"]
  have "categorize_issue ''It crashes on startup'' ''Startup''
          ([''docs''] @ ''Feature-Request'' # [''bug'']) = Some ''feature-request''"
    by blast
  moreover from pre l2 github_first_matching_label_decides
         [where pre = "[''docs'']" and l = "''Crash''" and post = "[''enhancement'']"
            and cont = "''We would like a feature''" and ttl = "''Startup''"]
  have "categorize_issue ''We would like a feature'' ''Startup''
          ([''docs''] @ ''Crash'' # [''enhancement'']) = Some ''bug-report''"
    by blast
  moreover from l3 k3 github_first_matching_label_decides
         [where labels = "[''docs'', ''question'']" and cont = "[]"
            and ttl = "''Update dependency version''"]
  have "categorize_issue [] ''Update dependency version'' [''docs'', ''question''] = None"
    by simp
  moreover from github_first_matching_label_decides
         [where cont = "''It crashes on startup, a feature I use''" and ttl = "''Startup''"]
  have "categorize_issue ''It crashes on startup, a feature I use'' ''Startup'' [''bug'']
          = Some ''bug-report''"
    by blast
  ultimately show ?thesis by simp
qed

text \<open>
  The claim as stated lets any label that contains "enhancement", "feature" or "request"
  yield feature-request and any label that contains "bug", "error" or "crash" yield
  bug-report. It fails where both kinds meet: with the labels "bug", "enhancement" (in this
  order) the issue is a bug report although a label contains "enhancement", and the single
  label "bug: feature flags" gives feature-request although it contains "bug".
\<close>

theorem github_label_order_counterexample:
  "any_kw [''enhancement'', ''feature'', ''request''] (lower ''enhancement'')
   \<and> categorize_issue ''It crashes on startup'' ''Startup'' [''bug'', ''enhancement'']
       = Some ''bug-report''
   \<and> any_kw [''bug'', ''error'', ''crash''] (lower ''bug: feature flags'')
   \<and> categorize_issue [] ''Flags'' [''bug: feature flags''] = Some ''feature-request''"
  by code_simp

subsection \<open>Parsers and collectors\<close>

lemma parse_tweet_Some:
  "parse_tweet pol t un = Some r \<Longrightarrow>
     categorize_tweet (t_text t) = Some (category r)
     \<and> tags r = twitter_extract_tags (t_text t) (category r)"
  by (auto simp: parse_tweet_def Let_def split: option.splits sum.splits)

text \<open>
  The GitHub parser returns no record, whatever the issue: either the classifier rejects
  the issue, or the read of \<open>issue.reactions.total_count\<close> raises. So the GitHub collector
  returns the empty list in each of its modes.
\<close>

lemma parse_issue_None: "parse_issue pol i rn = None"
  by (simp add: parse_issue_def dict_getattr_def Let_def split: option.splits)

lemma map_filter_parse_issue: "List.map_filter (\<lambda>i. parse_issue pol i rn) xs = []"
  by (simp add: List.map_filter_def parse_issue_None)

lemma github_sweep_empty: "snd (github_sweep api pol repos state lmt) = []"
  by (induction repos) (simp_all add: collect_from_repo_def Let_def map_filter_parse_issue)

lemma github_collect_empty: "snd (github_collect api pol q rp state lmt) = []"
  by (simp add: github_collect_def collect_from_repo_def search_github_def Let_def
        map_filter_parse_issue github_sweep_empty)

text \<open>
  A tweet with a mention gets no record either: the read of \<open>mention.username\<close> raises.
\<close>

lemma parse_tweet_mention: "t_entities t = Some (m # ms) \<Longrightarrow> parse_tweet pol t un = None"
  by (simp add: parse_tweet_def twitter_extract_product_mentions_def dict_getattr_def Let_def
           split: option.splits)

text \<open>Every record of a collector's list was built by its parser.\<close>

lemma map_filter_parsed:
  "r \<in> set (List.map_filter f xs) \<Longrightarrow> \<exists>x. f x = Some r"
  by (auto simp: List.map_filter_def)

lemma parsed_submissions:
  "r \<in> set (List.map_filter (\<lambda>s. parse_submission pol s sb) xs)
   \<Longrightarrow> \<exists>s sb. parse_submission pol s sb = Some r"
  by (drule map_filter_parsed) blast

lemma parsed_tweets:
  "r \<in> set (List.map_filter (\<lambda>t. parse_tweet pol t un) xs)
   \<Longrightarrow> \<exists>t un. parse_tweet pol t un = Some r"
  by (drule map_filter_parsed) blast

lemma reddit_sweep_parsed:
  "r \<in> set (snd (reddit_sweep api pol subs q tf lmt))
   \<Longrightarrow> \<exists>s sb. parse_submission pol s sb = Some r"
  by (induction subs)
     (auto simp: collect_from_subreddit_def Let_def dest: parsed_submissions)

lemma reddit_collect_parsed:
  "r \<in> set (snd (reddit_collect api pol q sr tf lmt))
   \<Longrightarrow> \<exists>s sb. parse_submission pol s sb = Some r"
  by (auto simp: reddit_collect_def collect_from_subreddit_def search_reddit_def Let_def
           split: if_splits dest: parsed_submissions reddit_sweep_parsed)

lemma twitter_collect_parsed:
  "r \<in> set (snd (twitter_collect client pol q usr cnt))
   \<Longrightarrow> \<exists>t un. parse_tweet pol t un = Some r"
  by (auto simp: twitter_collect_def collect_from_user_def search_twitter_def Let_def
           split: if_splits option.splits dest: parsed_tweets)

lemma persist_loop_sources:
  "persist_loop db ds n = Inr (db', m)
   \<Longrightarrow> db_rows db' = db_rows db \<and> set (db_pending db') \<subseteq> set (db_pending db) \<union> set ds"
proof (induction ds arbitrary: db n)
  case Nil
  then show ?case by simp
next
  case (Cons d ds)
  show ?case
  proof (cases "scalar_one_or_none db (source_url d)")
    case (Inl e)
    with Cons.prems show ?thesis by simp
  next
    case (Inr found)
    show ?thesis
    proof (cases found)
      case None
      with Inr Cons.prems have "persist_loop (db_add db d) ds (n + 1) = Inr (db', m)"
        by simp
      from Cons.IH [OF this] show ?thesis
        by (auto simp: db_add_def)
    next
      case (Some existing)
      with Inr Cons.prems have "persist_loop db ds n = Inr (db', m)"
        by simp
      from Cons.IH [OF this] show ?thesis
        by auto
    qed
  qed
qed

subsection \<open>Tags\<close>

lemma tag_loop_set:
  "set (tag_loop fts ft tgs) = set tgs \<union> fst ` {p \<in> set fts. any_kw (snd p) ft}"
proof (induction fts ft tgs rule: tag_loop.induct)
  case (1 full_text tgs)
  then show ?case by simp
next
  case (2 tag kws rest full_text tgs)
  have "{p \<in> set ((tag, kws) # rest). any_kw (snd p) full_text}
        = (if any_kw kws full_text then {(tag, kws)} else {})
          \<union> {p \<in> set rest. any_kw (snd p) full_text}"
    by auto
  with 2 show ?case
    by (simp add: image_Un Un_assoc Un_left_commute)
qed

lemma tag_loop_keeps: "c \<in> set tgs \<Longrightarrow> c \<in> set (tag_loop fts ft tgs)"
  by (simp add: tag_loop_set)

lemma reddit_tags_distinct: "parse_submission pol s sb = Some r \<Longrightarrow> distinct (tags r)"
  by (drule parse_submission_Some) (simp add: reddit_extract_tags_def py_list_set_def)

lemma twitter_tags_distinct: "parse_tweet pol t un = Some r \<Longrightarrow> distinct (tags r)"
  by (drule parse_tweet_Some) (simp add: twitter_extract_tags_def py_list_set_def)

lemma reddit_tags_set:
  "parse_submission pol s sb = Some r \<Longrightarrow>
   set (tags r) = insert (category r)
     (fst ` {p \<in> set reddit_feature_tags.
              any_kw (snd p) (lower (fmt2 (s_title s) (content r)))})"
  by (drule parse_submission_Some)
     (auto simp: reddit_extract_tags_def py_list_set_def tag_loop_set)

lemma twitter_tags_set:
  "parse_tweet pol t un = Some r \<Longrightarrow>
   set (tags r) = insert (category r)
     (fst ` {p \<in> set twitter_feature_tags. any_kw (snd p) (lower (t_text t))})"
  by (drule parse_tweet_Some)
     (auto simp: twitter_extract_tags_def py_list_set_def tag_loop_set)

text \<open>
  C7. The tags of every record that a collector returns are a set: no tag occurs twice,
  and the tags are the category together with the tags of the platform's table of which
  a keyword occurs in the text, whatever the order. For Reddit and Twitter the parser
  ends with \<open>list(set(tags))\<close>. The GitHub collector returns no record at all (its parser
  raises on every classified issue), so no record carries the list it builds from the
  labels and the extracted tags.
\<close>

theorem record_tags_are_a_set:
  "(parse_submission pol s sb = Some r \<longrightarrow>
      distinct (tags r)
      \<and> set (tags r) = insert (category r)
          (fst ` {p \<in> set reddit_feature_tags.
                   any_kw (snd p) (lower (fmt2 (s_title s) (content r)))}))
   \<and> (parse_tweet pol t un = Some r \<longrightarrow>
      distinct (tags r)
      \<and> set (tags r) = insert (category r)
          (fst ` {p \<in> set twitter_feature_tags. any_kw (snd p) (lower (t_text t))}))
   \<and> (r \<in> set (snd (reddit_collect api pol q sr tf lmt)) \<longrightarrow> distinct (tags r))
   \<and> (r \<in> set (snd (twitter_collect client pol q usr cnt)) \<longrightarrow> distinct (tags r))
   \<and> parse_issue pol i rn = None
   \<and> snd (github_collect gapi pol q rp state lmt) = []"
proof (intro conjI impI)
  assume p: "parse_submission pol s sb = Some r"
  then show "distinct (tags r)"
    by (rule reddit_tags_distinct)
  from p show "set (tags r) = insert (category r)
          (fst ` {p \<in> set reddit_feature_tags.
                   any_kw (snd p) (lower (fmt2 (s_title s) (content r)))})"
    by (rule reddit_tags_set)
next
  assume p: "parse_tweet pol t un = Some r"
  then show "distinct (tags r)"
    by (rule twitter_tags_distinct)
  from p show "set (tags r) = insert (category r)
          (fst ` {p \<in> set twitter_feature_tags. any_kw (snd p) (lower (t_text t))})"
    by (rule twitter_tags_set)
next
  assume "r \<in> set (snd (reddit_collect api pol q sr tf lmt))"
  then obtain s' sb' where "parse_submission pol s' sb' = Some r"
    using reddit_collect_parsed by blast
  then show "distinct (tags r)"
    by (rule reddit_tags_distinct)
next
  assume "r \<in> set (snd (twitter_collect client pol q usr cnt))"
  then obtain t' un' where "parse_tweet pol t' un' = Some r"
    using twitter_collect_parsed by blast
  then show "distinct (tags r)"
    by (rule twitter_tags_distinct)
next
  show "parse_issue pol i rn = None"
    by (rule parse_issue_None)
next
  show "snd (github_collect gapi pol q rp state lmt) = []"
    by (rule github_collect_empty)
qed

theorem record_tags_are_a_set_witness:
  "map_option (\<lambda>r. distinct (tags r)) (parse_submission neutral_polarity sample_post None)
     = Some True
   \<and> map_option (\<lambda>r. distinct (tags r)) (parse_tweet neutral_polarity sample_tweet None)
       = Some True
   \<and> list_all (\<lambda>r. distinct (tags r))
       (snd (reddit_collect sample_reddit neutral_polarity None (Some ''webdev'') ''month'' 50))
   \<and> list_all (\<lambda>r. distinct (tags r))
       (snd (twitter_collect (Some sample_twitter) neutral_polarity (Some ''dark mode'') None
               50))
   \<and> parse_issue neutral_polarity sample_issue (Some ''facebook/react'') = None"
proof -
  let ?ds = "snd (reddit_collect sample_reddit neutral_polarity None (Some ''webdev'')
                    ''month'' 50)"
  let ?ts = "snd (twitter_collect (Some sample_twitter) neutral_polarity
                    (Some ''dark mode'') None 50)"
  have "map_option category (parse_submission neutral_polarity sample_post None)
          = Some ''feature-request''"
    by code_simp
  then obtain r1 where r1: "parse_submission neutral_polarity sample_post None = Some r1"
    by blast
  have "map_option category (parse_tweet neutral_polarity sample_tweet None)
          = Some ''feature-request''"
    by code_simp
  then obtain r2 where r2: "parse_tweet neutral_polarity sample_tweet None = Some r2"
    by blast
  from r1 record_tags_are_a_set
         [where pol = neutral_polarity and s = sample_post and sb = None and r = r1,
            THEN conjunct1]
  have w1: "distinct (tags r1)" by blast
  from r2 record_tags_are_a_set
         [where pol = neutral_polarity and t = sample_tweet and un = None and r = r2,
            THEN conjunct2, THEN conjunct1]
  have w2: "distinct (tags r2)" by blast
  have w3: "list_all (\<lambda>r. distinct (tags r)) ?ds"
    unfolding list_all_iff
  proof
    fix r assume "r \<in> set ?ds"
    with record_tags_are_a_set
           [where r = r and api = sample_reddit and pol = neutral_polarity and q = None
              and sr = "Some ''webdev''" and tf = "''month''" and lmt = 50,
              THEN conjunct2, THEN conjunct2, THEN conjunct1]
    show "distinct (tags r)" by blast
  qed
  have w4: "list_all (\<lambda>r. distinct (tags r)) ?ts"
    unfolding list_all_iff
  proof
    fix r assume "r \<in> set ?ts"
    with record_tags_are_a_set
           [where r = r and client = "Some sample_twitter" and pol = neutral_polarity
              and q = "Some ''dark mode''" and usr = None and cnt = 50,
              THEN conjunct2, THEN conjunct2, THEN conjunct2, THEN conjunct1]
    show "distinct (tags r)" by blast
  qed
  from record_tags_are_a_set
         [where pol = neutral_polarity and i = sample_issue and rn = "Some ''facebook/react''",
            THEN conjunct2, THEN conjunct2, THEN conjunct2, THEN conjunct2, THEN conjunct1]
  have w5: "parse_issue neutral_polarity sample_issue (Some ''facebook/react'') = None" .
  from w1 w2 w3 w4 w5 r1 r2 show ?thesis by simp
qed

text \<open>
  The list that the GitHub parser builds before it fails, the names of the labels followed
  by the extracted tags, can hold a tag twice; as shown above, no record carries it.
\<close>

lemma github_tag_list_can_repeat:
  "\<not> distinct (extract_labels [''bug'', ''documentation'']
                 @ github_extract_tags [] ''Docs are wrong'' ''bug-report'')"
  by code_simp

text \<open>
  C8. Every list of tags that a parser builds for a classified item contains the item's
  category, on each of the three platforms. Every record that the Reddit or the Twitter
  parser returns carries the category its classifier gave the item, and this category is
  one of the record's tags; the same holds for every record in the lists these collectors
  return. The GitHub collector returns no record.
\<close>

theorem tags_contain_category:
  "cat \<in> set (reddit_extract_tags cont ttl cat)
   \<and> cat \<in> set (twitter_extract_tags cont cat)
   \<and> cat \<in> set (extract_labels labels @ github_extract_tags cont ttl cat)
   \<and> (parse_submission pol s sb = Some r \<longrightarrow>
      categorize_post (if s_selftext s \<noteq> [] then s_selftext s else s_title s) (s_title s)
        = Some (category r)
      \<and> category r \<in> set (tags r))
   \<and> (parse_tweet pol t un = Some r \<longrightarrow>
      categorize_tweet (t_text t) = Some (category r)
      \<and> category r \<in> set (tags r))
   \<and> (r \<in> set (snd (reddit_collect api pol q sr tf lmt)) \<longrightarrow> category r \<in> set (tags r))
   \<and> (r \<in> set (snd (twitter_collect client pol q usr cnt)) \<longrightarrow> category r \<in> set (tags r))
   \<and> snd (github_collect gapi pol q rp state lmt) = []"
proof (intro conjI impI)
  show "cat \<in> set (reddit_extract_tags cont ttl cat)"
    by (simp add: reddit_extract_tags_def py_list_set_def tag_loop_keeps)
next
  show "cat \<in> set (twitter_extract_tags cont cat)"
    by (simp add: twitter_extract_tags_def py_list_set_def tag_loop_keeps)
next
  show "cat \<in> set (extract_labels labels @ github_extract_tags cont ttl cat)"
    by (simp add: github_extract_tags_def py_list_set_def tag_loop_keeps)
next
  assume "parse_submission pol s sb = Some r"
  then have p: "categorize_post (if s_selftext s \<noteq> [] then s_selftext s else s_title s)
        (s_title s) = Some (category r)
     \<and> tags r = reddit_extract_tags (if s_selftext s \<noteq> [] then s_selftext s else s_title s)
                  (s_title s) (category r)"
    using parse_submission_Some by blast
  then show "categorize_post (if s_selftext s \<noteq> [] then s_selftext s else s_title s)
        (s_title s) = Some (category r)"
    by blast
  from p show "category r \<in> set (tags r)"
    by (simp add: reddit_extract_tags_def py_list_set_def tag_loop_keeps)
next
  assume "parse_tweet pol t un = Some r"
  then have p: "categorize_tweet (t_text t) = Some (category r)
     \<and> tags r = twitter_extract_tags (t_text t) (category r)"
    by (rule parse_tweet_Some)
  then show "categorize_tweet (t_text t) = Some (category r)"
    by blast
  from p show "category r \<in> set (tags r)"
    by (simp add: twitter_extract_tags_def py_list_set_def tag_loop_keeps)
next
  assume "r \<in> set (snd (reddit_collect api pol q sr tf lmt))"
  then obtain s' sb' where "parse_submission pol s' sb' = Some r"
    using reddit_collect_parsed by blast
  then have "tags r = reddit_extract_tags
                (if s_selftext s' \<noteq> [] then s_selftext s' else s_title s')
                (s_title s') (category r)"
    using parse_submission_Some by blast
  then show "category r \<in> set (tags r)"
    by (simp add: reddit_extract_tags_def py_list_set_def tag_loop_keeps)
next
  assume "r \<in> set (snd (twitter_collect client pol q usr cnt))"
  then obtain t' un' where "parse_tweet pol t' un' = Some r"
    using twitter_collect_parsed by blast
  then have "tags r = twitter_extract_tags (t_text t') (category r)"
    using parse_tweet_Some by blast
  then show "category r \<in> set (tags r)"
    by (simp add: twitter_extract_tags_def py_list_set_def tag_loop_keeps)
next
  show "snd (github_collect gapi pol q rp state lmt) = []"
    by (rule github_collect_empty)
qed

theorem tags_contain_category_witness:
  "map_option (\<lambda>r. category r \<in> set (tags r))
     (parse_submission neutral_polarity sample_post None) = Some True
   \<and> map_option (\<lambda>r. category r \<in> set (tags r))
       (parse_tweet neutral_polarity sample_tweet (Some ''notion'')) = Some True
   \<and> list_all (\<lambda>r. category r \<in> set (tags r))
       (snd (reddit_collect sample_reddit neutral_polarity None (Some ''webdev'') ''month'' 50))
   \<and> list_all (\<lambda>r. category r \<in> set (tags r))
       (snd (twitter_collect (Some sample_twitter) neutral_polarity (Some ''dark mode'') None
               50))"
proof -
  let ?ds = "snd (reddit_collect sample_reddit neutral_polarity None (Some ''webdev'')
                    ''month'' 50)"
  let ?ts = "snd (twitter_collect (Some sample_twitter) neutral_polarity
                    (Some ''dark mode'') None 50)"
  have "map_option category (parse_submission neutral_polarity sample_post None)
          = Some ''feature-request''"
    by code_simp
  then obtain r1 where r1: "parse_submission neutral_polarity sample_post None = Some r1"
    by blast
  have "map_option category (parse_tweet neutral_polarity sample_tweet (Some ''notion''))
          = Some ''feature-request''"
    by code_simp
  then obtain r3
    where r3: "parse_tweet neutral_polarity sample_tweet (Some ''notion'') = Some r3"
    by blast
  from r1 tags_contain_category
         [where pol = neutral_polarity and s = sample_post and sb = None and r = r1,
            THEN conjunct2, THEN conjunct2, THEN conjunct2, THEN conjunct1]
  have w1: "category r1 \<in> set (tags r1)" by blast
  from r3 tags_contain_category
         [where pol = neutral_polarity and t = sample_tweet and un = "Some ''notion''"
            and r = r3,
            THEN conjunct2, THEN conjunct2, THEN conjunct2, THEN conjunct2, THEN conjunct1]
  have w2: "category r3 \<in> set (tags r3)" by blast
  have w3: "list_all (\<lambda>r. category r \<in> set (tags r)) ?ds"
    unfolding list_all_iff
  proof
    fix r assume "r \<in> set ?ds"
    with tags_contain_category
           [where r = r and api = sample_reddit and pol = neutral_polarity and q = None
              and sr = "Some ''webdev''" and tf = "''month''" and lmt = 50,
              THEN conjunct2, THEN conjunct2, THEN conjunct2, THEN conjunct2, THEN conjunct2,
              THEN conjunct1]
    show "category r \<in> set (tags r)" by blast
  qed
  have w4: "list_all (\<lambda>r. category r \<in> set (tags r)) ?ts"
    unfolding list_all_iff
  proof
    fix r assume "r \<in> set ?ts"
    with tags_contain_category
           [where r = r and client = "Some sample_twitter" and pol = neutral_polarity
              and q = "Some ''dark mode''" and usr = None and cnt = 50,
              THEN conjunct2, THEN conjunct2, THEN conjunct2, THEN conjunct2, THEN conjunct2,
              THEN conjunct2, THEN conjunct1]
    show "category r \<in> set (tags r)" by blast
  qed
  from w1 w2 w3 w4 r1 r3 show ?thesis by simp
qed

subsection \<open>Rejected items\<close>

lemma any_kw_append: "any_kw (ks @ ks') t \<longleftrightarrow> any_kw ks t \<or> any_kw ks' t"
  by (simp add: any_kw_def)

lemma categorize_post_None:
  "\<not> any_kw (reddit_request_keywords @ reddit_complaint_keywords @ reddit_bug_keywords
              @ reddit_praise_keywords @ reddit_discussion_keywords) (lower (fmt2 ttl cont))
   \<Longrightarrow> categorize_post cont ttl = None"
  by (simp add: categorize_post_def any_kw_append)

lemma categorize_tweet_None:
  "\<not> any_kw (twitter_request_keywords @ twitter_complaint_keywords
              @ twitter_discussion_keywords) (lower cont)
   \<Longrightarrow> categorize_tweet cont = None"
  by (simp add: categorize_tweet_def any_kw_append)

lemma categorize_issue_None:
  "\<forall>l\<in>set labels. \<not> any_kw [''enhancement'', ''feature'', ''request'', ''bug'', ''error'', ''crash'']
                         (lower l)
   \<Longrightarrow> \<not> any_kw (github_feature_keywords @ github_bug_keywords) (lower (fmt2 ttl cont))
   \<Longrightarrow> categorize_issue cont ttl labels = None"
  by (simp add: categorize_issue_def any_kw_append label_category_no_match)

text \<open>
  C9. An item whose text matches no category rule of its platform gets no category from
  the classifier (for GitHub: no label with one of the six words and no keyword), and the
  parser returns nothing for an item without category, as a plain result and not as an
  error. Every record in the list of the Reddit or the Twitter collector was built by the
  parser, so from an item with a category, and the GitHub collector returns no record; the
  persist loop stores records of the collected list only. A record without category
  therefore never enters the store.
\<close>

theorem unclassified_items_are_dropped:
  "(\<not> any_kw (reddit_request_keywords @ reddit_complaint_keywords @ reddit_bug_keywords
               @ reddit_praise_keywords @ reddit_discussion_keywords) (lower (fmt2 ttl cont))
      \<longrightarrow> categorize_post cont ttl = None)
   \<and> (categorize_post (if s_selftext s \<noteq> [] then s_selftext s else s_title s) (s_title s)
        = None
      \<longrightarrow> parse_submission pol s sb = None)
   \<and> ((\<forall>l\<in>set labels. \<not> any_kw [''enhancement'', ''feature'', ''request'', ''bug'', ''error'',
                                    ''crash''] (lower l))
        \<and> \<not> any_kw (github_feature_keywords @ github_bug_keywords) (lower (fmt2 ttl cont))
      \<longrightarrow> categorize_issue cont ttl labels = None)
   \<and> (categorize_issue (if truthy (i_body i) then the (i_body i) else []) (i_title i)
        (i_labels i) = None
      \<longrightarrow> parse_issue pol i rn = None)
   \<and> (\<not> any_kw (twitter_request_keywords @ twitter_complaint_keywords
                 @ twitter_discussion_keywords) (lower cont)
      \<longrightarrow> categorize_tweet cont = None)
   \<and> (categorize_tweet (t_text t) = None \<longrightarrow> parse_tweet pol t un = None)
   \<and> (r \<in> set (snd (reddit_collect api pol q sr tf lmt))
      \<longrightarrow> (\<exists>s sb. parse_submission pol s sb = Some r))
   \<and> snd (github_collect gapi pol q rp state lmt) = []
   \<and> (r \<in> set (snd (twitter_collect client pol q usr cnt))
      \<longrightarrow> (\<exists>t un. parse_tweet pol t un = Some r))
   \<and> (persist_loop db ds n = Inr (db', m)
      \<longrightarrow> set (db_rows (db_commit db')) \<subseteq> set (db_rows db) \<union> set (db_pending db) \<union> set ds)"
proof (intro conjI impI)
  assume "\<not> any_kw (reddit_request_keywords @ reddit_complaint_keywords @ reddit_bug_keywords
               @ reddit_praise_keywords @ reddit_discussion_keywords) (lower (fmt2 ttl cont))"
  then show "categorize_post cont ttl = None"
    by (rule categorize_post_None)
next
  assume "categorize_post (if s_selftext s \<noteq> [] then s_selftext s else s_title s) (s_title s)
        = None"
  then show "parse_submission pol s sb = None"
    by (simp add: parse_submission_def)
next
  assume "(\<forall>l\<in>set labels. \<not> any_kw [''enhancement'', ''feature'', ''request'', ''bug'', ''error'',
                                    ''crash''] (lower l))
        \<and> \<not> any_kw (github_feature_keywords @ github_bug_keywords) (lower (fmt2 ttl cont))"
  then show "categorize_issue cont ttl labels = None"
    by (simp add: categorize_issue_None)
next
  assume "categorize_issue (if truthy (i_body i) then the (i_body i) else []) (i_title i)
        (i_labels i) = None"
  then show "parse_issue pol i rn = None"
    by (simp add: parse_issue_None)
next
  assume "\<not> any_kw (twitter_request_keywords @ twitter_complaint_keywords
                 @ twitter_discussion_keywords) (lower cont)"
  then show "categorize_tweet cont = None"
    by (rule categorize_tweet_None)
next
  assume "categorize_tweet (t_text t) = None"
  then show "parse_tweet pol t un = None"
    by (simp add: parse_tweet_def)
next
  assume "r \<in> set (snd (reddit_collect api pol q sr tf lmt))"
  then show "\<exists>s sb. parse_submission pol s sb = Some r"
    by (rule reddit_collect_parsed)
next
  show "snd (github_collect gapi pol q rp state lmt) = []"
    by (rule github_collect_empty)
next
  assume "r \<in> set (snd (twitter_collect client pol q usr cnt))"
  then show "\<exists>t un. parse_tweet pol t un = Some r"
    by (rule twitter_collect_parsed)
next
  assume "persist_loop db ds n = Inr (db', m)"
  from persist_loop_sources [OF this]
  show "set (db_rows (db_commit db')) \<subseteq> set (db_rows db) \<union> set (db_pending db) \<union> set ds"
    by (auto simp: db_commit_def)
qed

theorem unclassified_items_are_dropped_witness:
  "categorize_post ''Say hello'' ''Weekly thread'' = None
   \<and> parse_submission neutral_polarity sample_chatter None = None
   \<and> categorize_issue [] ''Update dependency version'' [''docs''] = None
   \<and> parse_issue neutral_polarity sample_chore (Some ''facebook/react'') = None
   \<and> categorize_tweet ''Good morning'' = None
   \<and> parse_tweet neutral_polarity sample_greeting None = None
   \<and> (\<exists>r s sb. r \<in> set (snd (reddit_collect sample_reddit neutral_polarity None
                                  (Some ''webdev'') ''month'' 50))
          \<and> parse_submission neutral_polarity s sb = Some r)
   \<and> snd (github_collect sample_github neutral_polarity None (Some ''facebook/react'')
            ''open'' 50) = []
   \<and> (\<exists>r t un. r \<in> set (snd (twitter_collect (Some sample_twitter) neutral_polarity
                                  (Some ''dark mode'') None 50))
          \<and> parse_tweet neutral_polarity t un = Some r)
   \<and> (\<exists>db' m. persist_loop \<lparr>db_rows = [], db_pending = []\<rparr>
                  (snd (reddit_collect sample_reddit neutral_polarity None (Some ''webdev'')
                          ''month'' 50)) 0 = Inr (db', m)
          \<and> set (db_rows (db_commit db'))
              \<subseteq> set (snd (reddit_collect sample_reddit neutral_polarity None (Some ''webdev'')
                               ''month'' 50)))"
proof -
  let ?ds = "snd (reddit_collect sample_reddit neutral_polarity None (Some ''webdev'')
                    ''month'' 50)"
  let ?ts = "snd (twitter_collect (Some sample_twitter) neutral_polarity
                    (Some ''dark mode'') None 50)"
  have "\<not> any_kw (reddit_request_keywords @ reddit_complaint_keywords @ reddit_bug_keywords
               @ reddit_praise_keywords @ reddit_discussion_keywords)
            (lower (fmt2 ''Weekly thread'' ''Say hello''))"
    by code_simp
  with unclassified_items_are_dropped [where ttl = "''Weekly thread''" and cont = "''Say hello''",
            THEN conjunct1]
  have w1: "categorize_post ''Say hello'' ''Weekly thread'' = None"
    by blast
  have "categorize_post (if s_selftext sample_chatter \<noteq> [] then s_selftext sample_chatter
                         else s_title sample_chatter) (s_title sample_chatter) = None"
    by code_simp
  with unclassified_items_are_dropped
         [where s = sample_chatter and pol = neutral_polarity and sb = None,
            THEN conjunct2, THEN conjunct1]
  have w2: "parse_submission neutral_polarity sample_chatter None = None"
    by blast
  have "(\<forall>l\<in>set [''docs'']. \<not> any_kw [''enhancement'', ''feature'', ''request'', ''bug'',
                                       ''error'', ''crash''] (lower l))
        \<and> \<not> any_kw (github_feature_keywords @ github_bug_keywords)
              (lower (fmt2 ''Update dependency version'' []))"
    by code_simp
  with unclassified_items_are_dropped
         [where labels = "[''docs'']" and ttl = "''Update dependency version''" and cont = "[]",
            THEN conjunct2, THEN conjunct2, THEN conjunct1]
  have w3: "categorize_issue [] ''Update dependency version'' [''docs''] = None"
    by blast
  have "categorize_issue (if truthy (i_body sample_chore) then the (i_body sample_chore) else [])
          (i_title sample_chore) (i_labels sample_chore) = None"
    by code_simp
  with unclassified_items_are_dropped
         [where i = sample_chore and pol = neutral_polarity and rn = "Some ''facebook/react''",
            THEN conjunct2, THEN conjunct2, THEN conjunct2, THEN conjunct1]
  have w4: "parse_issue neutral_polarity sample_chore (Some ''facebook/react'') = None"
    by blast
  have "\<not> any_kw (twitter_request_keywords @ twitter_complaint_keywords
                 @ twitter_discussion_keywords) (lower ''Good morning'')"
    by code_simp
  with unclassified_items_are_dropped [where cont = "''Good morning''",
            THEN conjunct2, THEN conjunct2, THEN conjunct2, THEN conjunct2, THEN conjunct1]
  have w5: "categorize_tweet ''Good morning'' = None"
    by blast
  have "categorize_tweet (t_text sample_greeting) = None"
    by code_simp
  with unclassified_items_are_dropped
         [where t = sample_greeting and pol = neutral_polarity and un = None,
            THEN conjunct2, THEN conjunct2, THEN conjunct2, THEN conjunct2, THEN conjunct2, THEN conjunct1]
  have w6: "parse_tweet neutral_polarity sample_greeting None = None"
    by blast
  have "map category ?ds = [''feature-request'']"
    by code_simp
  then obtain r1 where r1: "r1 \<in> set ?ds"
    by (cases ?ds) auto
  with unclassified_items_are_dropped
         [where r = r1 and api = sample_reddit and pol = neutral_polarity and q = None
            and sr = "Some ''webdev''" and tf = "''month''" and lmt = 50,
            THEN conjunct2, THEN conjunct2, THEN conjunct2, THEN conjunct2, THEN conjunct2, THEN conjunct2, THEN conjunct1]
  have w7: "\<exists>r s sb. r \<in> set ?ds \<and> parse_submission neutral_polarity s sb = Some r"
    by blast
  from unclassified_items_are_dropped
         [where gapi = sample_github and pol = neutral_polarity and q = None
            and rp = "Some ''facebook/react''" and state = "''open''" and lmt = 50,
            THEN conjunct2, THEN conjunct2, THEN conjunct2, THEN conjunct2, THEN conjunct2,
            THEN conjunct2, THEN conjunct2, THEN conjunct1]
  have w8: "snd (github_collect sample_github neutral_polarity None (Some ''facebook/react'')
                   ''open'' 50) = []" .
  have "map category ?ts = [''feature-request'']"
    by code_simp
  then obtain r3 where r3: "r3 \<in> set ?ts"
    by (cases ?ts) auto
  with unclassified_items_are_dropped
         [where r = r3 and client = "Some sample_twitter" and pol = neutral_polarity
            and q = "Some ''dark mode''" and usr = None and cnt = 50,
            THEN conjunct2, THEN conjunct2, THEN conjunct2, THEN conjunct2, THEN conjunct2, THEN conjunct2, THEN conjunct2, THEN conjunct2, THEN conjunct1]
  have w9: "\<exists>r t un. r \<in> set ?ts \<and> parse_tweet neutral_polarity t un = Some r"
    by blast
  have "distinct (map source_url (db_rows \<lparr>db_rows = [], db_pending = []\<rparr>))"
    by simp
  from persist_loop_distinct_rows [OF this, of ?ds 0]
  obtain db' m where p: "persist_loop \<lparr>db_rows = [], db_pending = []\<rparr> ?ds 0 = Inr (db', m)"
    by blast
  with unclassified_items_are_dropped
         [where db = "\<lparr>db_rows = [], db_pending = []\<rparr>" and ds = ?ds and n = 0
            and db' = db' and m = m,
            THEN conjunct2, THEN conjunct2, THEN conjunct2, THEN conjunct2, THEN conjunct2, THEN conjunct2, THEN conjunct2, THEN conjunct2, THEN conjunct2]
  have "set (db_rows (db_commit db')) \<subseteq> set ?ds"
    by simp
  with p have w10: "\<exists>db' m. persist_loop \<lparr>db_rows = [], db_pending = []\<rparr> ?ds 0 = Inr (db', m)
                      \<and> set (db_rows (db_commit db')) \<subseteq> set ?ds"
    by blast
  from w1 w2 w3 w4 w5 w6 w7 w8 w9 w10 show ?thesis
    by blast
qed

end
